theory Spec2Isabelle
  imports Main
begin

section \<open>The HTTP API of the topology manager (go/http/api.go)\<close>

text \<open>
  The file go/http/api.go holds the HTTP handlers of the manager. Every handler has the
  same outline: an authorization gate, the parsing of the path and query parameters, one
  or more calls into the packages \<open>inst\<close>, \<open>logic\<close>, \<open>agent\<close> and \<open>process\<close>, and one call
  of \<open>r.JSON\<close> that writes the response.

  A handler is embedded as a function that returns the list of calls it made into the
  other packages, in order, together with what it wrote. The other packages are not part
  of the file: a call into them is a value of type \<open>call\<close> (the Go name of the function and
  the arguments passed), and the \<open>world\<close> maps every call to the tuple of results the Go
  function returns.
\<close>

subsection \<open>Response codes and the response envelope\<close>

text \<open>\<^verbatim>\<open>type APIResponseCode int\<close>, with \<^verbatim>\<open>ERROR = iota\<close> and \<^verbatim>\<open>OK\<close> after it.\<close>

type_synonym APIResponseCode = int

definition ERROR :: APIResponseCode where
  "ERROR = 0"

definition OK :: APIResponseCode where
  "OK = 1"

definition APIResponseCode_String :: "APIResponseCode \<Rightarrow> string" where
  "APIResponseCode_String this =
     (if this = ERROR then ''ERROR''
      else if this = OK then ''OK''
      else ''unknown'')"

text \<open>
  \<^verbatim>\<open>MarshalJSON\<close> is \<^verbatim>\<open>json.Marshal(this.String())\<close>: the three strings above hold no
  character that JSON escapes, so the encoding is the string between double quotes.
\<close>

definition APIResponseCode_MarshalJSON :: "APIResponseCode \<Rightarrow> string" where
  "APIResponseCode_MarshalJSON this = [CHR 0x22] @ APIResponseCode_String this @ [CHR 0x22]"

subsection \<open>Data of the other packages\<close>

text \<open>
  Modelled from the spec: the declarations of \<open>inst.InstanceKey\<close>, \<open>inst.BinlogCoordinates\<close>
  and \<open>inst.Instance\<close> are not in the HTTP file. Section 3 of the specification gives
  \<open>InstanceKey\<close> as \<open>(hostname, port)\<close>, \<open>BinlogCoordinates\<close> as
  \<open>(logFile, logPos, type)\<close> with type binary or relay, and the fields of \<open>Instance\<close>;
  the record below keeps the fields that the handlers and the engine of sections 4.E to
  4.H read.
\<close>

record InstanceKey =
  Hostname :: string
  Port :: int

datatype BinlogType = BinaryLog | RelayLog

record BinlogCoordinates =
  LogFile :: string
  LogPos :: int
  Type :: BinlogType

datatype PromotionRule = Must | Prefer | Neutral | PreferNot | MustNot

datatype Capability = GtidCapable | PseudoGtidCapable | BinlogServerCapable | Incompatible

record Instance =
  Key :: InstanceKey
  ServerId :: nat
  Version :: nat
  UpstreamKey :: "InstanceKey option"
  ClusterName :: string
  DataCenter :: string
  Rule :: PromotionRule
  Replication :: Capability
  ExecBinlogCoordinates :: BinlogCoordinates
  RelaylogCoordinates :: BinlogCoordinates
  IsLastCheckValid :: bool

datatype AnalysisCode =
    DeadPrimary
  | DeadPrimaryAndSomeReplicas
  | DeadIntermediatePrimary
  | UnreachablePrimary
  | AllPrimaryReplicasNotReplicating
  | FirstTierReplicaFailingToConnectToPrimary
  | BinlogServerFailure
  | NoProblem

text \<open>
  Modelled from the spec: the declaration of \<open>logic.TopologyRecovery\<close> is not in the HTTP
  file. Section 3 lists its fields; the cluster, the analysis code and the analysed key
  are those of its \<open>AnalysisEntry\<close> snapshot, times are counted in seconds, and
  \<open>EndRecovery = None\<close> is the SQL \<open>NULL\<close> of a recovery that is still active.
\<close>

record TopologyRecovery =
  Id :: nat
  RecoveryCluster :: string
  RecoveryCode :: AnalysisCode
  AnalyzedInstanceKey :: InstanceKey
  StartActive :: nat
  EndRecovery :: "nat option"
  SuccessorKey :: "InstanceKey option"
  IsSuccessful :: bool
  Acknowledged :: bool
  AckBy :: string
  AckComment :: string

subsection \<open>Errors, strconv and fmt\<close>

text \<open>
  A Go \<open>error\<close> is either a plain message (\<^verbatim>\<open>errors.New\<close>, \<^verbatim>\<open>fmt.Errorf\<close>) or the
  \<^verbatim>\<open>*strconv.NumError\<close> of a failed number conversion, which keeps the function name,
  the offending text and the kind of failure.
\<close>

datatype NumErr = ErrSyntax | ErrRange

datatype error = ErrorString string | NumError string string NumErr

definition digit_char :: "nat \<Rightarrow> char" where
  "digit_char d = ''0123456789'' ! (d mod 10)"

fun digits_of :: "nat \<Rightarrow> string" where
  "digits_of n =
     (if n < 10 then [digit_char n] else digits_of (n div 10) @ [digit_char (n mod 10)])"

declare digits_of.simps [simp del]

declare digit_char_def [simp]

text \<open>The verb \<^verbatim>\<open>%d\<close> (and \<^verbatim>\<open>%+v\<close> on an integer): the decimal digits, with a minus sign.\<close>

definition FormatInt :: "int \<Rightarrow> string" where
  "FormatInt i = (if i < 0 then ''-'' @ digits_of (nat (- i)) else digits_of (nat i))"

definition decimal_digits :: "(char \<times> nat) list" where
  "decimal_digits = zip ''0123456789'' [0, 1, 2, 3, 4, 5, 6, 7, 8, 9]"

definition digit_val :: "char \<Rightarrow> nat option" where
  "digit_val c = map_of decimal_digits c"

declare decimal_digits_def [simp] digit_val_def [simp]

text \<open>
  The digit loop of \<^verbatim>\<open>strconv.ParseUint\<close> in base 10, character by character: a character
  that is no digit ends it with the syntax error, a value that leaves 64 bits ends it with
  the range error, whichever comes first.
\<close>

fun parse_digits :: "string \<Rightarrow> nat \<Rightarrow> NumErr + nat" where
  "parse_digits [] acc = Inr acc"
| "parse_digits (c # cs) acc =
     (case digit_val c of
        None \<Rightarrow> Inl ErrSyntax
      | Some d \<Rightarrow>
          if acc * 10 + d \<ge> 2 ^ 64 then Inl ErrRange else parse_digits cs (acc * 10 + d))"

text \<open>
  \<^verbatim>\<open>strconv.ParseInt(s, 10, 0)\<close> on a platform whose \<open>int\<close> has 64 bits. A text that is
  empty or holds a character that is no digit gives the value 0 and a syntax error; a
  number that does not fit gives the largest value of its sign and a range error.
\<close>

definition ParseInt :: "string \<Rightarrow> int \<times> error option" where
  "ParseInt s =
     (case s of
        [] \<Rightarrow> (0, Some (NumError ''ParseInt'' s ErrSyntax))
      | c # cs \<Rightarrow>
          (let neg = (c = CHR ''-'');
               body = (if c = CHR ''+'' \<or> c = CHR ''-'' then cs else s)
           in if body = [] then (0, Some (NumError ''ParseInt'' s ErrSyntax))
              else (case parse_digits body 0 of
                      Inl ErrSyntax \<Rightarrow> (0, Some (NumError ''ParseInt'' s ErrSyntax))
                    | Inl ErrRange \<Rightarrow>
                        (if neg then - (2 ^ 63) else 2 ^ 63 - 1,
                         Some (NumError ''ParseInt'' s ErrRange))
                    | Inr un \<Rightarrow>
                        if \<not> neg \<and> un \<ge> 2 ^ 63
                          then (2 ^ 63 - 1, Some (NumError ''ParseInt'' s ErrRange))
                        else if neg \<and> un > 2 ^ 63
                          then (- (2 ^ 63), Some (NumError ''ParseInt'' s ErrRange))
                        else (if neg then - int un else int un, None))))"

text \<open>\<^verbatim>\<open>strconv.Atoi(s)\<close> is \<^verbatim>\<open>ParseInt(s, 10, 0)\<close> converted to \<open>int\<close>.\<close>

definition Atoi :: "string \<Rightarrow> int \<times> error option" where
  "Atoi s = ParseInt s"

subsection \<open>Values written as JSON, calls and their results\<close>

text \<open>
  What a handler hands to \<^verbatim>\<open>r.JSON\<close> or stores in \<^verbatim>\<open>Details\<close> (an \<^verbatim>\<open>interface{}\<close>).
  \<open>JRaw\<close> is a value of a type declared in another package that the handler only passes
  on, given by its JSON text.
\<close>

datatype jvalue =
    JNull
  | JBool bool
  | JInt int
  | JString string
  | JKey InstanceKey
  | JInstance "Instance option"
  | JInstances "Instance list"
  | JRecoveries "TopologyRecovery list"
  | JList "jvalue list"
  | JMap "(string \<times> jvalue) list"
  | JRaw string

datatype arg =
    AStr string
  | AInt int
  | ABool bool
  | ANil
  | AKey InstanceKey
  | AKeyPtr "InstanceKey option"
  | AInstance Instance
  | ACoordinates BinlogCoordinates
  | AInstanceCoordinates InstanceKey BinlogCoordinates
  | AValue jvalue

datatype call = Call string "arg list"

text \<open>
  The results of a call. A Go function returns a tuple; the record has one field for
  every kind of component that some handler reads, and a handler reads the fields that
  the function it calls returns. Pointers are options: \<open>None\<close> is \<open>nil\<close>.
\<close>

record ret =
  r_err :: "error option"
  r_errs :: "error list"
  r_instance :: "Instance option"
  r_key :: "InstanceKey option"
  r_slices :: "Instance list list"
  r_count :: int
  r_flag :: bool
  r_text :: string
  r_coordinates :: "BinlogCoordinates option"
  r_rows :: "jvalue list"
  r_recoveries :: "TopologyRecovery list"
  r_out :: jvalue

text \<open>The \<open>n\<close>-th slice of instances that a call returns; a missing one is the nil slice.\<close>

definition slice :: "ret \<Rightarrow> nat \<Rightarrow> Instance list" where
  "slice r n = (if n < length (r_slices r) then r_slices r ! n else [])"

record Config =
  ServeAgentsHttp :: bool
  StatusSimpleHealth :: bool
  StatusEndpoint :: string
  RecoverMasterClusterFilters :: jvalue
  RecoverIntermediateMasterClusterFilters :: jvalue
  RecoveryIgnoreHostnameFilters :: jvalue

type_synonym params = "string \<rightharpoonup> string"
type_synonym user = string

record request =
  query :: "(string \<times> string) list"
  Header :: jvalue

text \<open>
  Everything a handler uses that the file does not define: \<open>isAuthorizedForAction\<close> and
  \<open>getUserId\<close> (of the same package, in another file), the functions of the other
  packages (\<open>core\<close>), the renderings of \<^verbatim>\<open>%+v\<close> on a key and on coordinates,
  \<^verbatim>\<open>InstanceKey.DisplayString\<close>, \<^verbatim>\<open>strconv.Quote\<close> and the configuration.
\<close>

record world =
  isAuthorizedForAction :: "request \<Rightarrow> user \<Rightarrow> bool"
  getUserId :: "request \<Rightarrow> user \<Rightarrow> string"
  core :: "call \<Rightarrow> ret"
  fmt_key :: "InstanceKey \<Rightarrow> string"
  fmt_coordinates :: "BinlogCoordinates \<Rightarrow> string"
  DisplayString :: "InstanceKey \<Rightarrow> string"
  Quote :: "string \<Rightarrow> string"
  config :: Config

text \<open>\<^verbatim>\<open>err.Error()\<close>, which is also what \<^verbatim>\<open>%+v\<close> prints for an error.\<close>

fun Error :: "world \<Rightarrow> error \<Rightarrow> string" where
  "Error w (ErrorString s) = s"
| "Error w (NumError fn num e) =
     ''strconv.'' @ fn @ '': parsing '' @ Quote w num @ '': '' @
     (case e of ErrSyntax \<Rightarrow> ''invalid syntax'' | ErrRange \<Rightarrow> ''value out of range'')"

text \<open>\<^verbatim>\<open>%+v\<close> on a slice of errors: the messages between brackets, separated by a space.\<close>

fun join_errors :: "world \<Rightarrow> error list \<Rightarrow> string" where
  "join_errors w [] = []"
| "join_errors w [e] = Error w e"
| "join_errors w (e # es) = Error w e @ '' '' @ join_errors w es"

definition fmt_errs :: "world \<Rightarrow> error list \<Rightarrow> string" where
  "fmt_errs w es = ''['' @ join_errors w es @ '']''"

text \<open>Reading a Go map of strings: a missing key reads as the empty string.\<close>

definition pget :: "params \<Rightarrow> string \<Rightarrow> string" where
  "pget params k = (case params k of None \<Rightarrow> [] | Some v \<Rightarrow> v)"

text \<open>\<^verbatim>\<open>req.URL.Query().Get(k)\<close>: the first value given for \<open>k\<close>, or the empty string.\<close>

definition Query_Get :: "request \<Rightarrow> string \<Rightarrow> string" where
  "Query_Get req k = (case map_of (query req) k of None \<Rightarrow> [] | Some v \<Rightarrow> v)"

record APIResponse =
  Code :: APIResponseCode
  Message :: string
  Details :: jvalue

text \<open>
  What a handler wrote: \<open>JSON status v\<close> for \<^verbatim>\<open>r.JSON(status, v)\<close>, where \<open>v\<close> is an
  envelope or any other value, and \<open>Panicked\<close> when the handler dereferenced a nil
  pointer before it wrote anything.
\<close>

datatype body = Envelope APIResponse | Plain jvalue

datatype outcome = JSON int body | Panicked

type_synonym result = "call list \<times> outcome"

type_synonym handler = "world \<Rightarrow> params \<Rightarrow> request \<Rightarrow> user \<Rightarrow> result"

definition envelope :: "APIResponseCode \<Rightarrow> string \<Rightarrow> jvalue \<Rightarrow> outcome" where
  "envelope c m d = JSON 200 (Envelope \<lparr>Code = c, Message = m, Details = d\<rparr>)"

text \<open>\<^verbatim>\<open>r.JSON(200, &APIResponse{Code: ERROR, Message: "Unauthorized"})\<close>\<close>

definition unauthorized :: outcome where
  "unauthorized = envelope ERROR ''Unauthorized'' JNull"

text \<open>\<^verbatim>\<open>r.JSON(200, &APIResponse{Code: ERROR, Message: err.Error()})\<close>\<close>

definition reply_error :: "world \<Rightarrow> error \<Rightarrow> outcome" where
  "reply_error w e = envelope ERROR (Error w e) JNull"

subsection \<open>Parameter helpers of the file\<close>

text \<open>
  \<^verbatim>\<open>getInstanceKey\<close> returns \<^verbatim>\<open>*instanceKey, err\<close>: it dereferences the pointer that
  \<^verbatim>\<open>inst.NewInstanceKeyFromStrings\<close> returned, whatever the error. The third component
  is \<open>None\<close> when that pointer was nil.
\<close>

definition getInstanceKey ::
  "world \<Rightarrow> string \<Rightarrow> string \<Rightarrow> call \<times> (InstanceKey \<times> error option) option" where
  "getInstanceKey w host port =
     (let c = Call ''inst.NewInstanceKeyFromStrings'' [AStr host, AStr port];
          r = core w c
      in (c, case r_key r of None \<Rightarrow> None | Some instanceKey \<Rightarrow> Some (instanceKey, r_err r)))"

definition getBinlogCoordinates :: "string \<Rightarrow> string \<Rightarrow> BinlogCoordinates \<times> error option" where
  "getBinlogCoordinates logFile logPos =
     (case ParseInt logPos of
        (v, Some e) \<Rightarrow>
          (\<lparr>LogFile = logFile, LogPos = v, Type = BinaryLog\<rparr>,
           Some (ErrorString (''Invalid logPos: '' @ logPos)))
      | (v, None) \<Rightarrow> (\<lparr>LogFile = logFile, LogPos = v, Type = BinaryLog\<rparr>, None))"

subsection \<open>The handlers\<close>

text \<open>
  A handler that takes the authenticated \<^verbatim>\<open>user\<close> has type \<open>handler\<close>; one that does not
  has type \<open>open_handler\<close>. The calls made so far are named \<open>c1\<close>, \<open>c2\<close>, ... in the
  order of the Go statements. The verb \<^verbatim>\<open>%+v\<close> on an error prints \<^verbatim>\<open>err.Error()\<close>,
  so both spellings of an error message are \<open>Error w err\<close>.
\<close>

type_synonym open_handler = "world \<Rightarrow> params \<Rightarrow> request \<Rightarrow> result"

text \<open>\<^verbatim>\<open>Instance\<close> reads and returns an instance's details. It has no authorization gate.\<close>

definition Instance :: open_handler where
  "Instance w params req =
     (case getInstanceKey w (pget params ''host'') (pget params ''port'') of
        (c1, None) \<Rightarrow> ([c1], Panicked)
      | (c1, Some (instanceKey, Some err)) \<Rightarrow> ([c1], reply_error w err)
      | (c1, Some (instanceKey, None)) \<Rightarrow>
          (let c2 = Call ''inst.ReadInstance'' [AKey instanceKey];
               r = core w c2
           in
             (if \<not> r_flag r \<or> r_err r \<noteq> None
              then ([c1, c2],
                    envelope ERROR (''Cannot read instance: '' @ fmt_key w instanceKey) JNull)
              else ([c1, c2], JSON 200 (Plain (JInstance (r_instance r)))))))"

definition Discover :: handler where
  "Discover w params req user =
     (if \<not> isAuthorizedForAction w req user then ([], unauthorized)
      else
        (case getInstanceKey w (pget params ''host'') (pget params ''port'') of
           (c1, None) \<Rightarrow> ([c1], Panicked)
         | (c1, Some (instanceKey, Some err)) \<Rightarrow> ([c1], reply_error w err)
         | (c1, Some (instanceKey, None)) \<Rightarrow>
             (let c2 = Call ''inst.ReadTopologyInstance'' [AKey instanceKey];
                  r = core w c2
              in
                (case r_err r of
                   Some err \<Rightarrow> ([c1, c2], reply_error w err)
                 | None \<Rightarrow>
                     (case r_instance r of
                        None \<Rightarrow> ([c1, c2], Panicked)
                      | Some instance \<Rightarrow>
                          ([c1, c2],
                           envelope OK (''Instance discovered: '' @ fmt_key w (Key instance))
                             (JInstance (r_instance r))))))))"

definition Refresh :: handler where
  "Refresh w params req user =
     (if \<not> isAuthorizedForAction w req user then ([], unauthorized)
      else
        (case getInstanceKey w (pget params ''host'') (pget params ''port'') of
           (c1, None) \<Rightarrow> ([c1], Panicked)
         | (c1, Some (instanceKey, Some err)) \<Rightarrow> ([c1], reply_error w err)
         | (c1, Some (instanceKey, None)) \<Rightarrow>
             (let c2 = Call ''inst.RefreshTopologyInstance'' [AKey instanceKey];
                  r = core w c2
              in
                (case r_err r of
                   Some err \<Rightarrow> ([c1, c2], reply_error w err)
                 | None \<Rightarrow>
                     ([c1, c2],
                      envelope OK (''Instance refreshed: '' @ fmt_key w instanceKey)
                        (JKey instanceKey))))))"

text \<open>\<^verbatim>\<open>Forget\<close> drops the error of \<^verbatim>\<open>inst.NewRawInstanceKey\<close>, hands the pointer to
  \<^verbatim>\<open>inst.ForgetInstance\<close> and dereferences it for the message.\<close>

definition Forget :: handler where
  "Forget w params req user =
     (if \<not> isAuthorizedForAction w req user then ([], unauthorized)
      else
        (let c1 = Call ''inst.NewRawInstanceKey'' [AStr (pget params ''host'' @ '':'' @ pget params ''port'')];
             rawInstanceKey = r_key (core w c1);
             c2 = Call ''inst.ForgetInstance'' [AKeyPtr rawInstanceKey]
         in
           (case rawInstanceKey of
              None \<Rightarrow> ([c1, c2], Panicked)
            | Some k \<Rightarrow>
                ([c1, c2], envelope OK (''Instance forgotten: '' @ fmt_key w k) JNull))))"

definition Resolve :: open_handler where
  "Resolve w params req =
     (case getInstanceKey w (pget params ''host'') (pget params ''port'') of
        (c1, None) \<Rightarrow> ([c1], Panicked)
      | (c1, Some (instanceKey, Some err)) \<Rightarrow> ([c1], reply_error w err)
      | (c1, Some (instanceKey, None)) \<Rightarrow>
          (let c2 = Call ''net.Dial'' [AStr ''tcp'', AStr (DisplayString w instanceKey)];
               r = core w c2;
               c3 = Call ''conn.Close'' []
           in
             (case r_err r of
                Some err \<Rightarrow> ([c1, c2], reply_error w err)
              | None \<Rightarrow>
                  ([c1, c2, c3], envelope OK ''Instance resolved'' (JKey instanceKey)))))"

definition BeginMaintenance :: handler where
  "BeginMaintenance w params req user =
     (if \<not> isAuthorizedForAction w req user then ([], unauthorized)
      else
        (case getInstanceKey w (pget params ''host'') (pget params ''port'') of
           (c1, None) \<Rightarrow> ([c1], Panicked)
         | (c1, Some (instanceKey, Some err)) \<Rightarrow> ([c1], reply_error w err)
         | (c1, Some (instanceKey, None)) \<Rightarrow>
             (let c2 = Call ''inst.BeginBoundedMaintenance''
                         [AKey instanceKey,
                          AStr (pget params ''owner''),
                          AStr (pget params ''reason''),
                          AInt 0,
                          ABool True];
                  r = core w c2
              in
                (case r_err r of
                   Some err \<Rightarrow> ([c1, c2], envelope ERROR (Error w err) (r_out r))
                 | None \<Rightarrow>
                     ([c1, c2],
                      envelope OK (''Maintenance begun: '' @ fmt_key w instanceKey)
                        (JNull))))))"

definition EndMaintenance :: handler where
  "EndMaintenance w params req user =
     (if \<not> isAuthorizedForAction w req user then ([], unauthorized)
      else
        (case ParseInt (pget params ''maintenanceKey'') of
           (maintenanceKey, Some err) \<Rightarrow> ([], reply_error w err)
         | (maintenanceKey, None) \<Rightarrow>
             (let c1 = Call ''inst.EndMaintenance'' [AInt maintenanceKey];
                  r = core w c1
              in
                (case r_err r of
                   Some err \<Rightarrow> ([c1], reply_error w err)
                 | None \<Rightarrow>
                     ([c1],
                      envelope OK (''Maintenance ended: '' @ FormatInt maintenanceKey)
                        (JNull))))))"

definition EndMaintenanceByInstanceKey :: handler where
  "EndMaintenanceByInstanceKey w params req user =
     (if \<not> isAuthorizedForAction w req user then ([], unauthorized)
      else
        (case getInstanceKey w (pget params ''host'') (pget params ''port'') of
           (c1, None) \<Rightarrow> ([c1], Panicked)
         | (c1, Some (instanceKey, Some err)) \<Rightarrow> ([c1], reply_error w err)
         | (c1, Some (instanceKey, None)) \<Rightarrow>
             (let c2 = Call ''inst.EndMaintenanceByInstanceKey''
                         [AKey instanceKey];
                  r = core w c2
              in
                (case r_err r of
                   Some err \<Rightarrow> ([c1, c2], reply_error w err)
                 | None \<Rightarrow>
                     ([c1, c2],
                      envelope OK (''Maintenance ended: '' @ fmt_key w instanceKey)
                        (JNull))))))"

definition Maintenance :: open_handler where
  "Maintenance w params req =
     (let c1 = Call ''inst.ReadActiveMaintenance'' [];
          r = core w c1
      in
        (case r_err r of
           Some err \<Rightarrow> ([c1], reply_error w err)
         | None \<Rightarrow>
             ([c1], JSON 200 (Plain (r_out r)))))"

text \<open>In \<^verbatim>\<open>BeginDowntime\<close> the conversion \<^verbatim>\<open>uint(durationSeconds)\<close> is only reached with a
  duration that is not negative, where it keeps the number.\<close>

definition BeginDowntime :: handler where
  "BeginDowntime w params req user =
     (if \<not> isAuthorizedForAction w req user then ([], unauthorized)
      else
        (case getInstanceKey w (pget params ''host'') (pget params ''port'') of
           (c1, None) \<Rightarrow> ([c1], Panicked)
         | (c1, Some (instanceKey, Some err)) \<Rightarrow> ([c1], reply_error w err)
         | (c1, Some (instanceKey, None)) \<Rightarrow>
             (if pget params ''duration'' = []
              then
                (let c2 = Call ''inst.BeginDowntime''
                            [AKey instanceKey,
                             AStr (pget params ''owner''),
                             AStr (pget params ''reason''),
                             AInt 0];
                     r = core w c2
                 in
                   (case r_err r of
                      Some err \<Rightarrow> ([c1, c2], envelope ERROR (Error w err) (JKey instanceKey))
                    | None \<Rightarrow>
                        ([c1, c2],
                         envelope OK (''Downtime begun: '' @ fmt_key w instanceKey)
                           (JNull))))
              else
                (let c2 = Call ''util.SimpleTimeToSeconds'' [AStr (pget params ''duration'')];
                     t = core w c2;
                     durationSeconds = r_count t;
                     err = (if durationSeconds < 0
                            then Some (ErrorString (''Duration value must be non-negative. Given value: '' @
                                                    FormatInt durationSeconds))
                            else r_err t)
                 in
                   (case err of
                      Some e \<Rightarrow> ([c1, c2], reply_error w e)
                    | None \<Rightarrow>
                        (let c3 = Call ''inst.BeginDowntime''
                                    [AKey instanceKey,
                                     AStr (pget params ''owner''),
                                     AStr (pget params ''reason''),
                                     AInt durationSeconds];
                             r = core w c3
                         in
                           (case r_err r of
                              Some err \<Rightarrow> ([c1, c2, c3], envelope ERROR (Error w err) (JKey instanceKey))
                            | None \<Rightarrow>
                                ([c1, c2, c3],
                                 envelope OK (''Downtime begun: '' @ fmt_key w instanceKey)
                                   (JNull)))))))))"

definition EndDowntime :: handler where
  "EndDowntime w params req user =
     (if \<not> isAuthorizedForAction w req user then ([], unauthorized)
      else
        (case getInstanceKey w (pget params ''host'') (pget params ''port'') of
           (c1, None) \<Rightarrow> ([c1], Panicked)
         | (c1, Some (instanceKey, Some err)) \<Rightarrow> ([c1], reply_error w err)
         | (c1, Some (instanceKey, None)) \<Rightarrow>
             (let c2 = Call ''inst.EndDowntime'' [AKey instanceKey];
                  r = core w c2
              in
                (case r_err r of
                   Some err \<Rightarrow> ([c1, c2], reply_error w err)
                 | None \<Rightarrow>
                     ([c1, c2],
                      envelope OK (''Downtime ended: '' @ fmt_key w instanceKey)
                        (JNull))))))"

definition MoveUp :: handler where
  "MoveUp w params req user =
     (if \<not> isAuthorizedForAction w req user then ([], unauthorized)
      else
        (case getInstanceKey w (pget params ''host'') (pget params ''port'') of
           (c1, None) \<Rightarrow> ([c1], Panicked)
         | (c1, Some (instanceKey, Some err)) \<Rightarrow> ([c1], reply_error w err)
         | (c1, Some (instanceKey, None)) \<Rightarrow>
             (let c2 = Call ''inst.MoveUp'' [AKey instanceKey];
                  r = core w c2
              in
                (case r_err r of
                   Some err \<Rightarrow> ([c1, c2], reply_error w err)
                 | None \<Rightarrow>
                     ([c1, c2],
                      envelope OK (''Instance '' @ fmt_key w instanceKey @ '' moved up'')
                        (JInstance (r_instance r)))))))"

definition MoveUpSlaves :: handler where
  "MoveUpSlaves w params req user =
     (if \<not> isAuthorizedForAction w req user then ([], unauthorized)
      else
        (case getInstanceKey w (pget params ''host'') (pget params ''port'') of
           (c1, None) \<Rightarrow> ([c1], Panicked)
         | (c1, Some (instanceKey, Some err)) \<Rightarrow> ([c1], reply_error w err)
         | (c1, Some (instanceKey, None)) \<Rightarrow>
             (let c2 = Call ''inst.MoveUpSlaves''
                         [AKey instanceKey,
                          AStr (Query_Get req ''pattern'')];
                  r = core w c2
              in
                (case r_err r of
                   Some err \<Rightarrow> ([c1, c2], reply_error w err)
                 | None \<Rightarrow>
                     (case r_instance r of
                        None \<Rightarrow> ([c1, c2], Panicked)
                      | Some newMaster \<Rightarrow>
                          ([c1, c2],
                           envelope OK (''Moved up '' @ FormatInt (int (length (slice r 0))) @ '' slaves of '' @ fmt_key w instanceKey @
                                        '' below '' @ fmt_key w (Key newMaster) @ ''; '' @ FormatInt (int (length (r_errs r))) @
                                        '' errors: '' @ fmt_errs w (r_errs r))
                             (JKey (Key newMaster))))))))"

definition RepointSlaves :: handler where
  "RepointSlaves w params req user =
     (if \<not> isAuthorizedForAction w req user then ([], unauthorized)
      else
        (case getInstanceKey w (pget params ''host'') (pget params ''port'') of
           (c1, None) \<Rightarrow> ([c1], Panicked)
         | (c1, Some (instanceKey, Some err)) \<Rightarrow> ([c1], reply_error w err)
         | (c1, Some (instanceKey, None)) \<Rightarrow>
             (let c2 = Call ''inst.RepointSlaves''
                         [AKey instanceKey,
                          AStr (Query_Get req ''pattern'')];
                  r = core w c2
              in
                (case r_err r of
                   Some err \<Rightarrow> ([c1, c2], reply_error w err)
                 | None \<Rightarrow>
                     ([c1, c2],
                      envelope OK (''Repointed '' @ FormatInt (int (length (slice r 0))) @ '' slaves of '' @ fmt_key w instanceKey)
                        (JKey instanceKey))))))"

definition MakeCoMaster :: handler where
  "MakeCoMaster w params req user =
     (if \<not> isAuthorizedForAction w req user then ([], unauthorized)
      else
        (case getInstanceKey w (pget params ''host'') (pget params ''port'') of
           (c1, None) \<Rightarrow> ([c1], Panicked)
         | (c1, Some (instanceKey, Some err)) \<Rightarrow> ([c1], reply_error w err)
         | (c1, Some (instanceKey, None)) \<Rightarrow>
             (let c2 = Call ''inst.MakeCoMaster'' [AKey instanceKey];
                  r = core w c2
              in
                (case r_err r of
                   Some err \<Rightarrow> ([c1, c2], reply_error w err)
                 | None \<Rightarrow>
                     (case r_instance r of
                        None \<Rightarrow> ([c1, c2], Panicked)
                      | Some instance \<Rightarrow>
                          ([c1, c2],
                           envelope OK (''Instance made co-master: '' @ fmt_key w (Key instance))
                             (JInstance (r_instance r))))))))"

definition ResetSlave :: handler where
  "ResetSlave w params req user =
     (if \<not> isAuthorizedForAction w req user then ([], unauthorized)
      else
        (case getInstanceKey w (pget params ''host'') (pget params ''port'') of
           (c1, None) \<Rightarrow> ([c1], Panicked)
         | (c1, Some (instanceKey, Some err)) \<Rightarrow> ([c1], reply_error w err)
         | (c1, Some (instanceKey, None)) \<Rightarrow>
             (let c2 = Call ''inst.ResetSlaveOperation'' [AKey instanceKey];
                  r = core w c2
              in
                (case r_err r of
                   Some err \<Rightarrow> ([c1, c2], reply_error w err)
                 | None \<Rightarrow>
                     (case r_instance r of
                        None \<Rightarrow> ([c1, c2], Panicked)
                      | Some instance \<Rightarrow>
                          ([c1, c2],
                           envelope OK (''Slave reset on '' @ fmt_key w (Key instance))
                             (JInstance (r_instance r))))))))"

definition DetachSlave :: handler where
  "DetachSlave w params req user =
     (if \<not> isAuthorizedForAction w req user then ([], unauthorized)
      else
        (case getInstanceKey w (pget params ''host'') (pget params ''port'') of
           (c1, None) \<Rightarrow> ([c1], Panicked)
         | (c1, Some (instanceKey, Some err)) \<Rightarrow> ([c1], reply_error w err)
         | (c1, Some (instanceKey, None)) \<Rightarrow>
             (let c2 = Call ''inst.DetachSlaveOperation'' [AKey instanceKey];
                  r = core w c2
              in
                (case r_err r of
                   Some err \<Rightarrow> ([c1, c2], reply_error w err)
                 | None \<Rightarrow>
                     (case r_instance r of
                        None \<Rightarrow> ([c1, c2], Panicked)
                      | Some instance \<Rightarrow>
                          ([c1, c2],
                           envelope OK (''Slave detached: '' @ fmt_key w (Key instance))
                             (JInstance (r_instance r))))))))"

definition ReattachSlave :: handler where
  "ReattachSlave w params req user =
     (if \<not> isAuthorizedForAction w req user then ([], unauthorized)
      else
        (case getInstanceKey w (pget params ''host'') (pget params ''port'') of
           (c1, None) \<Rightarrow> ([c1], Panicked)
         | (c1, Some (instanceKey, Some err)) \<Rightarrow> ([c1], reply_error w err)
         | (c1, Some (instanceKey, None)) \<Rightarrow>
             (let c2 = Call ''inst.ReattachSlaveOperation'' [AKey instanceKey];
                  r = core w c2
              in
                (case r_err r of
                   Some err \<Rightarrow> ([c1, c2], reply_error w err)
                 | None \<Rightarrow>
                     (case r_instance r of
                        None \<Rightarrow> ([c1, c2], Panicked)
                      | Some instance \<Rightarrow>
                          ([c1, c2],
                           envelope OK (''Slave reattached: '' @ fmt_key w (Key instance))
                             (JInstance (r_instance r))))))))"

definition ReattachSlaveMasterHost :: handler where
  "ReattachSlaveMasterHost w params req user =
     (if \<not> isAuthorizedForAction w req user then ([], unauthorized)
      else
        (case getInstanceKey w (pget params ''host'') (pget params ''port'') of
           (c1, None) \<Rightarrow> ([c1], Panicked)
         | (c1, Some (instanceKey, Some err)) \<Rightarrow> ([c1], reply_error w err)
         | (c1, Some (instanceKey, None)) \<Rightarrow>
             (let c2 = Call ''inst.ReattachSlaveMasterHost'' [AKey instanceKey];
                  r = core w c2
              in
                (case r_err r of
                   Some err \<Rightarrow> ([c1, c2], reply_error w err)
                 | None \<Rightarrow>
                     (case r_instance r of
                        None \<Rightarrow> ([c1, c2], Panicked)
                      | Some instance \<Rightarrow>
                          ([c1, c2],
                           envelope OK (''Slave reattached: '' @ fmt_key w (Key instance))
                             (JInstance (r_instance r))))))))"

definition EnableGTID :: handler where
  "EnableGTID w params req user =
     (if \<not> isAuthorizedForAction w req user then ([], unauthorized)
      else
        (case getInstanceKey w (pget params ''host'') (pget params ''port'') of
           (c1, None) \<Rightarrow> ([c1], Panicked)
         | (c1, Some (instanceKey, Some err)) \<Rightarrow> ([c1], reply_error w err)
         | (c1, Some (instanceKey, None)) \<Rightarrow>
             (let c2 = Call ''inst.EnableGTID'' [AKey instanceKey];
                  r = core w c2
              in
                (case r_err r of
                   Some err \<Rightarrow> ([c1, c2], reply_error w err)
                 | None \<Rightarrow>
                     (case r_instance r of
                        None \<Rightarrow> ([c1, c2], Panicked)
                      | Some instance \<Rightarrow>
                          ([c1, c2],
                           envelope OK (''Enabled GTID on '' @ fmt_key w (Key instance))
                             (JInstance (r_instance r))))))))"

definition DisableGTID :: handler where
  "DisableGTID w params req user =
     (if \<not> isAuthorizedForAction w req user then ([], unauthorized)
      else
        (case getInstanceKey w (pget params ''host'') (pget params ''port'') of
           (c1, None) \<Rightarrow> ([c1], Panicked)
         | (c1, Some (instanceKey, Some err)) \<Rightarrow> ([c1], reply_error w err)
         | (c1, Some (instanceKey, None)) \<Rightarrow>
             (let c2 = Call ''inst.DisableGTID'' [AKey instanceKey];
                  r = core w c2
              in
                (case r_err r of
                   Some err \<Rightarrow> ([c1, c2], reply_error w err)
                 | None \<Rightarrow>
                     (case r_instance r of
                        None \<Rightarrow> ([c1, c2], Panicked)
                      | Some instance \<Rightarrow>
                          ([c1, c2],
                           envelope OK (''Disabled GTID on '' @ fmt_key w (Key instance))
                             (JInstance (r_instance r))))))))"

definition MoveBelow :: handler where
  "MoveBelow w params req user =
     (if \<not> isAuthorizedForAction w req user then ([], unauthorized)
      else
        (case getInstanceKey w (pget params ''host'') (pget params ''port'') of
           (c1, None) \<Rightarrow> ([c1], Panicked)
         | (c1, Some (instanceKey, Some err)) \<Rightarrow> ([c1], reply_error w err)
         | (c1, Some (instanceKey, None)) \<Rightarrow>
             (case getInstanceKey w (pget params ''siblingHost'') (pget params ''siblingPort'') of
                (c2, None) \<Rightarrow> ([c1, c2], Panicked)
              | (c2, Some (siblingKey, Some err)) \<Rightarrow> ([c1, c2], reply_error w err)
              | (c2, Some (siblingKey, None)) \<Rightarrow>
                  (let c3 = Call ''inst.MoveBelow''
                              [AKey instanceKey,
                               AKey siblingKey];
                       r = core w c3
                   in
                     (case r_err r of
                        Some err \<Rightarrow> ([c1, c2, c3], reply_error w err)
                      | None \<Rightarrow>
                          ([c1, c2, c3],
                           envelope OK (''Instance '' @ fmt_key w instanceKey @ '' moved below '' @ fmt_key w siblingKey)
                             (JInstance (r_instance r))))))))"

definition MoveBelowGTID :: handler where
  "MoveBelowGTID w params req user =
     (if \<not> isAuthorizedForAction w req user then ([], unauthorized)
      else
        (case getInstanceKey w (pget params ''host'') (pget params ''port'') of
           (c1, None) \<Rightarrow> ([c1], Panicked)
         | (c1, Some (instanceKey, Some err)) \<Rightarrow> ([c1], reply_error w err)
         | (c1, Some (instanceKey, None)) \<Rightarrow>
             (case getInstanceKey w (pget params ''belowHost'') (pget params ''belowPort'') of
                (c2, None) \<Rightarrow> ([c1, c2], Panicked)
              | (c2, Some (belowKey, Some err)) \<Rightarrow> ([c1, c2], reply_error w err)
              | (c2, Some (belowKey, None)) \<Rightarrow>
                  (let c3 = Call ''inst.MoveBelowGTID''
                              [AKey instanceKey,
                               AKey belowKey];
                       r = core w c3
                   in
                     (case r_err r of
                        Some err \<Rightarrow> ([c1, c2, c3], reply_error w err)
                      | None \<Rightarrow>
                          ([c1, c2, c3],
                           envelope OK (''Instance '' @ fmt_key w instanceKey @ '' moved below '' @ fmt_key w belowKey @ '' via GTID'')
                             (JInstance (r_instance r))))))))"

definition MoveSlavesGTID :: handler where
  "MoveSlavesGTID w params req user =
     (if \<not> isAuthorizedForAction w req user then ([], unauthorized)
      else
        (case getInstanceKey w (pget params ''host'') (pget params ''port'') of
           (c1, None) \<Rightarrow> ([c1], Panicked)
         | (c1, Some (instanceKey, Some err)) \<Rightarrow> ([c1], reply_error w err)
         | (c1, Some (instanceKey, None)) \<Rightarrow>
             (case getInstanceKey w (pget params ''belowHost'') (pget params ''belowPort'') of
                (c2, None) \<Rightarrow> ([c1, c2], Panicked)
              | (c2, Some (belowKey, Some err)) \<Rightarrow> ([c1, c2], reply_error w err)
              | (c2, Some (belowKey, None)) \<Rightarrow>
                  (let c3 = Call ''inst.MoveSlavesGTID''
                              [AKey instanceKey,
                               AKey belowKey,
                               AStr (Query_Get req ''pattern'')];
                       r = core w c3
                   in
                     (case r_err r of
                        Some err \<Rightarrow> ([c1, c2, c3], reply_error w err)
                      | None \<Rightarrow>
                          ([c1, c2, c3],
                           envelope OK (''Moved '' @ FormatInt (int (length (slice r 0))) @ '' slaves of '' @ fmt_key w instanceKey @
                                        '' below '' @ fmt_key w belowKey @ '' via GTID; '' @ FormatInt (int (length (r_errs r))) @
                                        '' errors: '' @ fmt_errs w (r_errs r))
                             (JKey belowKey)))))))"

definition EnslaveSiblings :: handler where
  "EnslaveSiblings w params req user =
     (if \<not> isAuthorizedForAction w req user then ([], unauthorized)
      else
        (case getInstanceKey w (pget params ''host'') (pget params ''port'') of
           (c1, None) \<Rightarrow> ([c1], Panicked)
         | (c1, Some (instanceKey, Some err)) \<Rightarrow> ([c1], reply_error w err)
         | (c1, Some (instanceKey, None)) \<Rightarrow>
             (let c2 = Call ''inst.EnslaveSiblings'' [AKey instanceKey];
                  r = core w c2
              in
                (case r_err r of
                   Some err \<Rightarrow> ([c1, c2], reply_error w err)
                 | None \<Rightarrow>
                     ([c1, c2],
                      envelope OK (''Enslaved '' @ FormatInt (r_count r) @ '' siblings of '' @ fmt_key w instanceKey)
                        (JInstance (r_instance r)))))))"

definition EnslaveMaster :: handler where
  "EnslaveMaster w params req user =
     (if \<not> isAuthorizedForAction w req user then ([], unauthorized)
      else
        (case getInstanceKey w (pget params ''host'') (pget params ''port'') of
           (c1, None) \<Rightarrow> ([c1], Panicked)
         | (c1, Some (instanceKey, Some err)) \<Rightarrow> ([c1], reply_error w err)
         | (c1, Some (instanceKey, None)) \<Rightarrow>
             (let c2 = Call ''inst.EnslaveMaster'' [AKey instanceKey];
                  r = core w c2
              in
                (case r_err r of
                   Some err \<Rightarrow> ([c1, c2], reply_error w err)
                 | None \<Rightarrow>
                     ([c1, c2],
                      envelope OK (fmt_key w instanceKey @ '' enslaved its master'')
                        (JInstance (r_instance r)))))))"

text \<open>\<^verbatim>\<open>RelocateBelow\<close> moves an instance below another; the relocation itself is
  \<^verbatim>\<open>inst.RelocateBelow\<close>.\<close>

definition RelocateBelow :: handler where
  "RelocateBelow w params req user =
     (if \<not> isAuthorizedForAction w req user then ([], unauthorized)
      else
        (case getInstanceKey w (pget params ''host'') (pget params ''port'') of
           (c1, None) \<Rightarrow> ([c1], Panicked)
         | (c1, Some (instanceKey, Some err)) \<Rightarrow> ([c1], reply_error w err)
         | (c1, Some (instanceKey, None)) \<Rightarrow>
             (case getInstanceKey w (pget params ''belowHost'') (pget params ''belowPort'') of
                (c2, None) \<Rightarrow> ([c1, c2], Panicked)
              | (c2, Some (belowKey, Some err)) \<Rightarrow> ([c1, c2], reply_error w err)
              | (c2, Some (belowKey, None)) \<Rightarrow>
                  (let c3 = Call ''inst.RelocateBelow''
                              [AKey instanceKey,
                               AKey belowKey];
                       r = core w c3
                   in
                     (case r_err r of
                        Some err \<Rightarrow> ([c1, c2, c3], reply_error w err)
                      | None \<Rightarrow>
                          ([c1, c2, c3],
                           envelope OK (''Instance '' @ fmt_key w instanceKey @ '' relocated below '' @ fmt_key w belowKey)
                             (JInstance (r_instance r))))))))"

definition RelocateSlaves :: handler where
  "RelocateSlaves w params req user =
     (if \<not> isAuthorizedForAction w req user then ([], unauthorized)
      else
        (case getInstanceKey w (pget params ''host'') (pget params ''port'') of
           (c1, None) \<Rightarrow> ([c1], Panicked)
         | (c1, Some (instanceKey, Some err)) \<Rightarrow> ([c1], reply_error w err)
         | (c1, Some (instanceKey, None)) \<Rightarrow>
             (case getInstanceKey w (pget params ''belowHost'') (pget params ''belowPort'') of
                (c2, None) \<Rightarrow> ([c1, c2], Panicked)
              | (c2, Some (belowKey, Some err)) \<Rightarrow> ([c1, c2], reply_error w err)
              | (c2, Some (belowKey, None)) \<Rightarrow>
                  (let c3 = Call ''inst.RelocateSlaves''
                              [AKey instanceKey,
                               AKey belowKey,
                               AStr (Query_Get req ''pattern'')];
                       r = core w c3
                   in
                     (case r_err r of
                        Some err \<Rightarrow> ([c1, c2, c3], reply_error w err)
                      | None \<Rightarrow>
                          ([c1, c2, c3],
                           envelope OK (''Relocated '' @ FormatInt (int (length (slice r 0))) @ '' slaves of '' @ fmt_key w instanceKey @
                                        '' below '' @ fmt_key w belowKey @ ''; '' @ FormatInt (int (length (r_errs r))) @
                                        '' errors: '' @ fmt_errs w (r_errs r))
                             (JInstances (slice r 0))))))))"

definition MoveEquivalent :: handler where
  "MoveEquivalent w params req user =
     (if \<not> isAuthorizedForAction w req user then ([], unauthorized)
      else
        (case getInstanceKey w (pget params ''host'') (pget params ''port'') of
           (c1, None) \<Rightarrow> ([c1], Panicked)
         | (c1, Some (instanceKey, Some err)) \<Rightarrow> ([c1], reply_error w err)
         | (c1, Some (instanceKey, None)) \<Rightarrow>
             (case getInstanceKey w (pget params ''belowHost'') (pget params ''belowPort'') of
                (c2, None) \<Rightarrow> ([c1, c2], Panicked)
              | (c2, Some (belowKey, Some err)) \<Rightarrow> ([c1, c2], reply_error w err)
              | (c2, Some (belowKey, None)) \<Rightarrow>
                  (let c3 = Call ''inst.MoveEquivalent''
                              [AKey instanceKey,
                               AKey belowKey];
                       r = core w c3
                   in
                     (case r_err r of
                        Some err \<Rightarrow> ([c1, c2, c3], reply_error w err)
                      | None \<Rightarrow>
                          ([c1, c2, c3],
                           envelope OK (''Instance '' @ fmt_key w instanceKey @ '' relocated via equivalence coordinates below '' @
                                        fmt_key w belowKey)
                             (JInstance (r_instance r))))))))"

definition LastPseudoGTID :: handler where
  "LastPseudoGTID w params req user =
     (if \<not> isAuthorizedForAction w req user then ([], unauthorized)
      else
        (case getInstanceKey w (pget params ''host'') (pget params ''port'') of
           (c1, None) \<Rightarrow> ([c1], Panicked)
         | (c1, Some (instanceKey, Some err)) \<Rightarrow> ([c1], reply_error w err)
         | (c1, Some (instanceKey, None)) \<Rightarrow>
             (let c2 = Call ''inst.ReadTopologyInstance'' [AKey instanceKey];
                  r = core w c2
              in
                (case r_err r of
                   Some err \<Rightarrow> ([c1, c2], reply_error w err)
                 | None \<Rightarrow>
                     (case r_instance r of
                        None \<Rightarrow>
                          ([c1, c2], envelope ERROR (''Instance not found: '' @ fmt_key w instanceKey) JNull)
                      | Some instance \<Rightarrow>
                          (let c3 = Call ''inst.FindLastPseudoGTIDEntry''
                                      [AInstance instance,
                                       ACoordinates (RelaylogCoordinates instance),
                                       ANil,
                                       ABool False,
                                       ANil];
                               f = core w c3
                           in
                             (case r_err f of
                                Some err \<Rightarrow> ([c1, c2, c3], reply_error w err)
                              | None \<Rightarrow>
                                  (case r_coordinates f of
                                     None \<Rightarrow> ([c1, c2, c3], Panicked)
                                   | Some coordinates \<Rightarrow>
                                       ([c1, c2, c3],
                                        envelope OK (fmt_coordinates w coordinates)
                                          (JString (r_text f)))))))))))"

definition MatchBelow :: handler where
  "MatchBelow w params req user =
     (if \<not> isAuthorizedForAction w req user then ([], unauthorized)
      else
        (case getInstanceKey w (pget params ''host'') (pget params ''port'') of
           (c1, None) \<Rightarrow> ([c1], Panicked)
         | (c1, Some (instanceKey, Some err)) \<Rightarrow> ([c1], reply_error w err)
         | (c1, Some (instanceKey, None)) \<Rightarrow>
             (case getInstanceKey w (pget params ''belowHost'') (pget params ''belowPort'') of
                (c2, None) \<Rightarrow> ([c1, c2], Panicked)
              | (c2, Some (belowKey, Some err)) \<Rightarrow> ([c1, c2], reply_error w err)
              | (c2, Some (belowKey, None)) \<Rightarrow>
                  (let c3 = Call ''inst.MatchBelow''
                              [AKey instanceKey,
                               AKey belowKey,
                               ABool True];
                       r = core w c3
                   in
                     (case r_err r of
                        Some err \<Rightarrow> ([c1, c2, c3], reply_error w err)
                      | None \<Rightarrow>
                          (case r_coordinates r of
                             None \<Rightarrow> ([c1, c2, c3], Panicked)
                           | Some matchedCoordinates \<Rightarrow>
                               ([c1, c2, c3],
                                envelope OK (''Instance '' @ fmt_key w instanceKey @ '' matched below '' @ fmt_key w belowKey @
                                             '' at '' @ fmt_coordinates w matchedCoordinates)
                                  (JInstance (r_instance r)))))))))"

definition MatchUp :: handler where
  "MatchUp w params req user =
     (if \<not> isAuthorizedForAction w req user then ([], unauthorized)
      else
        (case getInstanceKey w (pget params ''host'') (pget params ''port'') of
           (c1, None) \<Rightarrow> ([c1], Panicked)
         | (c1, Some (instanceKey, Some err)) \<Rightarrow> ([c1], reply_error w err)
         | (c1, Some (instanceKey, None)) \<Rightarrow>
             (let c2 = Call ''inst.MatchUp'' [AKey instanceKey, ABool True];
                  r = core w c2
              in
                (case r_err r of
                   Some err \<Rightarrow> ([c1, c2], reply_error w err)
                 | None \<Rightarrow>
                     (case r_coordinates r of
                        None \<Rightarrow> ([c1, c2], Panicked)
                      | Some matchedCoordinates \<Rightarrow>
                          ([c1, c2],
                           envelope OK (''Instance '' @ fmt_key w instanceKey @ '' matched up at '' @
                                        fmt_coordinates w matchedCoordinates)
                             (JInstance (r_instance r))))))))"

definition MultiMatchSlaves :: handler where
  "MultiMatchSlaves w params req user =
     (if \<not> isAuthorizedForAction w req user then ([], unauthorized)
      else
        (case getInstanceKey w (pget params ''host'') (pget params ''port'') of
           (c1, None) \<Rightarrow> ([c1], Panicked)
         | (c1, Some (instanceKey, Some err)) \<Rightarrow> ([c1], reply_error w err)
         | (c1, Some (instanceKey, None)) \<Rightarrow>
             (case getInstanceKey w (pget params ''belowHost'') (pget params ''belowPort'') of
                (c2, None) \<Rightarrow> ([c1, c2], Panicked)
              | (c2, Some (belowKey, Some err)) \<Rightarrow> ([c1, c2], reply_error w err)
              | (c2, Some (belowKey, None)) \<Rightarrow>
                  (let c3 = Call ''inst.MultiMatchSlaves''
                              [AKey instanceKey,
                               AKey belowKey,
                               AStr (Query_Get req ''pattern'')];
                       r = core w c3
                   in
                     (case r_err r of
                        Some err \<Rightarrow> ([c1, c2, c3], reply_error w err)
                      | None \<Rightarrow>
                          (case r_instance r of
                             None \<Rightarrow> ([c1, c2, c3], Panicked)
                           | Some newMaster \<Rightarrow>
                               ([c1, c2, c3],
                                envelope OK (''Matched '' @ FormatInt (int (length (slice r 0))) @ '' slaves of '' @ fmt_key w instanceKey @
                                             '' below '' @ fmt_key w (Key newMaster) @ ''; '' @ FormatInt (int (length (r_errs r))) @
                                             '' errors: '' @ fmt_errs w (r_errs r))
                                  (JKey (Key newMaster)))))))))"

definition MatchUpSlaves :: handler where
  "MatchUpSlaves w params req user =
     (if \<not> isAuthorizedForAction w req user then ([], unauthorized)
      else
        (case getInstanceKey w (pget params ''host'') (pget params ''port'') of
           (c1, None) \<Rightarrow> ([c1], Panicked)
         | (c1, Some (instanceKey, Some err)) \<Rightarrow> ([c1], reply_error w err)
         | (c1, Some (instanceKey, None)) \<Rightarrow>
             (let c2 = Call ''inst.MatchUpSlaves''
                         [AKey instanceKey,
                          AStr (Query_Get req ''pattern'')];
                  r = core w c2
              in
                (case r_err r of
                   Some err \<Rightarrow> ([c1, c2], reply_error w err)
                 | None \<Rightarrow>
                     (case r_instance r of
                        None \<Rightarrow> ([c1, c2], Panicked)
                      | Some newMaster \<Rightarrow>
                          ([c1, c2],
                           envelope OK (''Matched up '' @ FormatInt (int (length (slice r 0))) @ '' slaves of '' @ fmt_key w instanceKey @
                                        '' below '' @ fmt_key w (Key newMaster) @ ''; '' @ FormatInt (int (length (r_errs r))) @
                                        '' errors: '' @ fmt_errs w (r_errs r))
                             (JKey (Key newMaster))))))))"

text \<open>The regroup handlers. \<^verbatim>\<open>inst.RegroupSlaves\<close> returns, in this order, the slices
  \<^verbatim>\<open>lostSlaves\<close>, \<^verbatim>\<open>equalSlaves\<close>, \<^verbatim>\<open>aheadSlaves\<close> and \<^verbatim>\<open>cannotReplicateSlaves\<close>, the
  promoted instance and the error. The handler first appends \<^verbatim>\<open>cannotReplicateSlaves\<close>
  to \<^verbatim>\<open>lostSlaves\<close>, then looks at the error.\<close>

definition RegroupSlaves :: handler where
  "RegroupSlaves w params req user =
     (if \<not> isAuthorizedForAction w req user then ([], unauthorized)
      else
        (case getInstanceKey w (pget params ''host'') (pget params ''port'') of
           (c1, None) \<Rightarrow> ([c1], Panicked)
         | (c1, Some (instanceKey, Some err)) \<Rightarrow> ([c1], reply_error w err)
         | (c1, Some (instanceKey, None)) \<Rightarrow>
             (let c2 = Call ''inst.RegroupSlaves'' [AKey instanceKey, ABool False, ANil, ANil];
                  r = core w c2;
                  equalSlaves = slice r 1;
                  aheadSlaves = slice r 2;
                  cannotReplicateSlaves = slice r 3;
                  promotedSlave = r_instance r;
                  lostSlaves = slice r 0 @ cannotReplicateSlaves
              in
                (case r_err r of
                   Some err \<Rightarrow> ([c1, c2], reply_error w err)
                 | None \<Rightarrow>
                     (case promotedSlave of
                        None \<Rightarrow> ([c1, c2], Panicked)
                      | Some promoted \<Rightarrow>
                          ([c1, c2],
                           envelope OK (''promoted slave: '' @ DisplayString w (Key promoted) @
                                        '', lost: '' @ FormatInt (int (length lostSlaves)) @
                                        '', trivial: '' @ FormatInt (int (length equalSlaves)) @
                                        '', pseudo-gtid: '' @ FormatInt (int (length aheadSlaves)))
                             (JKey (Key promoted))))))))"

definition RegroupSlavesPseudoGTID :: handler where
  "RegroupSlavesPseudoGTID w params req user =
     (if \<not> isAuthorizedForAction w req user then ([], unauthorized)
      else
        (case getInstanceKey w (pget params ''host'') (pget params ''port'') of
           (c1, None) \<Rightarrow> ([c1], Panicked)
         | (c1, Some (instanceKey, Some err)) \<Rightarrow> ([c1], reply_error w err)
         | (c1, Some (instanceKey, None)) \<Rightarrow>
             (let c2 = Call ''inst.RegroupSlavesPseudoGTID'' [AKey instanceKey, ABool False, ANil, ANil];
                  r = core w c2;
                  equalSlaves = slice r 1;
                  aheadSlaves = slice r 2;
                  cannotReplicateSlaves = slice r 3;
                  promotedSlave = r_instance r;
                  lostSlaves = slice r 0 @ cannotReplicateSlaves
              in
                (case r_err r of
                   Some err \<Rightarrow> ([c1, c2], reply_error w err)
                 | None \<Rightarrow>
                     (case promotedSlave of
                        None \<Rightarrow> ([c1, c2], Panicked)
                      | Some promoted \<Rightarrow>
                          ([c1, c2],
                           envelope OK (''promoted slave: '' @ DisplayString w (Key promoted) @
                                        '', lost: '' @ FormatInt (int (length lostSlaves)) @
                                        '', trivial: '' @ FormatInt (int (length equalSlaves)) @
                                        '', pseudo-gtid: '' @ FormatInt (int (length aheadSlaves)))
                             (JKey (Key promoted))))))))"

text \<open>\<^verbatim>\<open>inst.RegroupSlavesGTID\<close> returns \<^verbatim>\<open>lostSlaves\<close>, \<^verbatim>\<open>movedSlaves\<close>,
  \<^verbatim>\<open>cannotReplicateSlaves\<close>, the promoted instance and the error.\<close>

definition RegroupSlavesGTID :: handler where
  "RegroupSlavesGTID w params req user =
     (if \<not> isAuthorizedForAction w req user then ([], unauthorized)
      else
        (case getInstanceKey w (pget params ''host'') (pget params ''port'') of
           (c1, None) \<Rightarrow> ([c1], Panicked)
         | (c1, Some (instanceKey, Some err)) \<Rightarrow> ([c1], reply_error w err)
         | (c1, Some (instanceKey, None)) \<Rightarrow>
             (let c2 = Call ''inst.RegroupSlavesGTID'' [AKey instanceKey, ABool False, ANil];
                  r = core w c2;
                  movedSlaves = slice r 1;
                  cannotReplicateSlaves = slice r 2;
                  promotedSlave = r_instance r;
                  lostSlaves = slice r 0 @ cannotReplicateSlaves
              in
                (case r_err r of
                   Some err \<Rightarrow> ([c1, c2], reply_error w err)
                 | None \<Rightarrow>
                     (case promotedSlave of
                        None \<Rightarrow> ([c1, c2], Panicked)
                      | Some promoted \<Rightarrow>
                          ([c1, c2],
                           envelope OK (''promoted slave: '' @ DisplayString w (Key promoted) @
                                        '', lost: '' @ FormatInt (int (length lostSlaves)) @
                                        '', moved: '' @ FormatInt (int (length movedSlaves)))
                             (JKey (Key promoted))))))))"

definition RegroupSlavesBinlogServers :: handler where
  "RegroupSlavesBinlogServers w params req user =
     (if \<not> isAuthorizedForAction w req user then ([], unauthorized)
      else
        (case getInstanceKey w (pget params ''host'') (pget params ''port'') of
           (c1, None) \<Rightarrow> ([c1], Panicked)
         | (c1, Some (instanceKey, Some err)) \<Rightarrow> ([c1], reply_error w err)
         | (c1, Some (instanceKey, None)) \<Rightarrow>
             (let c2 = Call ''inst.RegroupSlavesBinlogServers''
                         [AKey instanceKey,
                          ABool False];
                  r = core w c2
              in
                (case r_err r of
                   Some err \<Rightarrow> ([c1, c2], reply_error w err)
                 | None \<Rightarrow>
                     (case r_instance r of
                        None \<Rightarrow> ([c1, c2], Panicked)
                      | Some promotedBinlogServer \<Rightarrow>
                          ([c1, c2],
                           envelope OK (''promoted binlog server: '' @ DisplayString w (Key promotedBinlogServer))
                             (JKey (Key promotedBinlogServer))))))))"

definition MakeMaster :: handler where
  "MakeMaster w params req user =
     (if \<not> isAuthorizedForAction w req user then ([], unauthorized)
      else
        (case getInstanceKey w (pget params ''host'') (pget params ''port'') of
           (c1, None) \<Rightarrow> ([c1], Panicked)
         | (c1, Some (instanceKey, Some err)) \<Rightarrow> ([c1], reply_error w err)
         | (c1, Some (instanceKey, None)) \<Rightarrow>
             (let c2 = Call ''inst.MakeMaster'' [AKey instanceKey];
                  r = core w c2
              in
                (case r_err r of
                   Some err \<Rightarrow> ([c1, c2], reply_error w err)
                 | None \<Rightarrow>
                     ([c1, c2],
                      envelope OK (''Instance '' @ fmt_key w instanceKey @ '' now made master'')
                        (JInstance (r_instance r)))))))"

definition MakeLocalMaster :: handler where
  "MakeLocalMaster w params req user =
     (if \<not> isAuthorizedForAction w req user then ([], unauthorized)
      else
        (case getInstanceKey w (pget params ''host'') (pget params ''port'') of
           (c1, None) \<Rightarrow> ([c1], Panicked)
         | (c1, Some (instanceKey, Some err)) \<Rightarrow> ([c1], reply_error w err)
         | (c1, Some (instanceKey, None)) \<Rightarrow>
             (let c2 = Call ''inst.MakeLocalMaster'' [AKey instanceKey];
                  r = core w c2
              in
                (case r_err r of
                   Some err \<Rightarrow> ([c1, c2], reply_error w err)
                 | None \<Rightarrow>
                     ([c1, c2],
                      envelope OK (''Instance '' @ fmt_key w instanceKey @ '' now made local master'')
                        (JInstance (r_instance r)))))))"

definition SkipQuery :: handler where
  "SkipQuery w params req user =
     (if \<not> isAuthorizedForAction w req user then ([], unauthorized)
      else
        (case getInstanceKey w (pget params ''host'') (pget params ''port'') of
           (c1, None) \<Rightarrow> ([c1], Panicked)
         | (c1, Some (instanceKey, Some err)) \<Rightarrow> ([c1], reply_error w err)
         | (c1, Some (instanceKey, None)) \<Rightarrow>
             (let c2 = Call ''inst.SkipQuery'' [AKey instanceKey];
                  r = core w c2
              in
                (case r_err r of
                   Some err \<Rightarrow> ([c1, c2], reply_error w err)
                 | None \<Rightarrow>
                     (case r_instance r of
                        None \<Rightarrow> ([c1, c2], Panicked)
                      | Some instance \<Rightarrow>
                          ([c1, c2],
                           envelope OK (''Query skipped on '' @ fmt_key w (Key instance))
                             (JInstance (r_instance r))))))))"

definition StartSlave :: handler where
  "StartSlave w params req user =
     (if \<not> isAuthorizedForAction w req user then ([], unauthorized)
      else
        (case getInstanceKey w (pget params ''host'') (pget params ''port'') of
           (c1, None) \<Rightarrow> ([c1], Panicked)
         | (c1, Some (instanceKey, Some err)) \<Rightarrow> ([c1], reply_error w err)
         | (c1, Some (instanceKey, None)) \<Rightarrow>
             (let c2 = Call ''inst.StartSlave'' [AKey instanceKey];
                  r = core w c2
              in
                (case r_err r of
                   Some err \<Rightarrow> ([c1, c2], reply_error w err)
                 | None \<Rightarrow>
                     (case r_instance r of
                        None \<Rightarrow> ([c1, c2], Panicked)
                      | Some instance \<Rightarrow>
                          ([c1, c2],
                           envelope OK (''Slave started: '' @ fmt_key w (Key instance))
                             (JInstance (r_instance r))))))))"

definition RestartSlave :: handler where
  "RestartSlave w params req user =
     (if \<not> isAuthorizedForAction w req user then ([], unauthorized)
      else
        (case getInstanceKey w (pget params ''host'') (pget params ''port'') of
           (c1, None) \<Rightarrow> ([c1], Panicked)
         | (c1, Some (instanceKey, Some err)) \<Rightarrow> ([c1], reply_error w err)
         | (c1, Some (instanceKey, None)) \<Rightarrow>
             (let c2 = Call ''inst.RestartSlave'' [AKey instanceKey];
                  r = core w c2
              in
                (case r_err r of
                   Some err \<Rightarrow> ([c1, c2], reply_error w err)
                 | None \<Rightarrow>
                     (case r_instance r of
                        None \<Rightarrow> ([c1, c2], Panicked)
                      | Some instance \<Rightarrow>
                          ([c1, c2],
                           envelope OK (''Slave restarted: '' @ fmt_key w (Key instance))
                             (JInstance (r_instance r))))))))"

definition StopSlave :: handler where
  "StopSlave w params req user =
     (if \<not> isAuthorizedForAction w req user then ([], unauthorized)
      else
        (case getInstanceKey w (pget params ''host'') (pget params ''port'') of
           (c1, None) \<Rightarrow> ([c1], Panicked)
         | (c1, Some (instanceKey, Some err)) \<Rightarrow> ([c1], reply_error w err)
         | (c1, Some (instanceKey, None)) \<Rightarrow>
             (let c2 = Call ''inst.StopSlave'' [AKey instanceKey];
                  r = core w c2
              in
                (case r_err r of
                   Some err \<Rightarrow> ([c1, c2], reply_error w err)
                 | None \<Rightarrow>
                     (case r_instance r of
                        None \<Rightarrow> ([c1, c2], Panicked)
                      | Some instance \<Rightarrow>
                          ([c1, c2],
                           envelope OK (''Slave stopped: '' @ fmt_key w (Key instance))
                             (JInstance (r_instance r))))))))"

definition StopSlaveNicely :: handler where
  "StopSlaveNicely w params req user =
     (if \<not> isAuthorizedForAction w req user then ([], unauthorized)
      else
        (case getInstanceKey w (pget params ''host'') (pget params ''port'') of
           (c1, None) \<Rightarrow> ([c1], Panicked)
         | (c1, Some (instanceKey, Some err)) \<Rightarrow> ([c1], reply_error w err)
         | (c1, Some (instanceKey, None)) \<Rightarrow>
             (let c2 = Call ''inst.StopSlaveNicely'' [AKey instanceKey, AInt 0];
                  r = core w c2
              in
                (case r_err r of
                   Some err \<Rightarrow> ([c1, c2], reply_error w err)
                 | None \<Rightarrow>
                     (case r_instance r of
                        None \<Rightarrow> ([c1, c2], Panicked)
                      | Some instance \<Rightarrow>
                          ([c1, c2],
                           envelope OK (''Slave stopped nicely: '' @ fmt_key w (Key instance))
                             (JInstance (r_instance r))))))))"

definition MasterEquivalent :: handler where
  "MasterEquivalent w params req user =
     (if \<not> isAuthorizedForAction w req user then ([], unauthorized)
      else
        (case getInstanceKey w (pget params ''host'') (pget params ''port'') of
           (c1, None) \<Rightarrow> ([c1], Panicked)
         | (c1, Some (instanceKey, Some err)) \<Rightarrow> ([c1], reply_error w err)
         | (c1, Some (instanceKey, None)) \<Rightarrow>
             (case getBinlogCoordinates (pget params ''logFile'') (pget params ''logPos'') of
                (coordinates, Some err) \<Rightarrow> ([c1], reply_error w err)
              | (coordinates, None) \<Rightarrow>
                  (let c2 = Call ''inst.GetEquivalentMasterCoordinates''
                              [AInstanceCoordinates instanceKey coordinates];
                       r = core w c2
                   in
                     (case r_err r of
                        Some err \<Rightarrow> ([c1, c2], reply_error w err)
                      | None \<Rightarrow>
                          ([c1, c2],
                           envelope OK (''Found '' @ FormatInt (int (length (r_rows r))) @ '' equivalent coordinates'')
                             (JList (r_rows r))))))))"

definition SetReadOnly :: handler where
  "SetReadOnly w params req user =
     (if \<not> isAuthorizedForAction w req user then ([], unauthorized)
      else
        (case getInstanceKey w (pget params ''host'') (pget params ''port'') of
           (c1, None) \<Rightarrow> ([c1], Panicked)
         | (c1, Some (instanceKey, Some err)) \<Rightarrow> ([c1], reply_error w err)
         | (c1, Some (instanceKey, None)) \<Rightarrow>
             (let c2 = Call ''inst.SetReadOnly'' [AKey instanceKey, ABool True];
                  r = core w c2
              in
                (case r_err r of
                   Some err \<Rightarrow> ([c1, c2], reply_error w err)
                 | None \<Rightarrow>
                     ([c1, c2],
                      envelope OK (''Server set as read-only'')
                        (JInstance (r_instance r)))))))"

definition SetWriteable :: handler where
  "SetWriteable w params req user =
     (if \<not> isAuthorizedForAction w req user then ([], unauthorized)
      else
        (case getInstanceKey w (pget params ''host'') (pget params ''port'') of
           (c1, None) \<Rightarrow> ([c1], Panicked)
         | (c1, Some (instanceKey, Some err)) \<Rightarrow> ([c1], reply_error w err)
         | (c1, Some (instanceKey, None)) \<Rightarrow>
             (let c2 = Call ''inst.SetReadOnly'' [AKey instanceKey, ABool False];
                  r = core w c2
              in
                (case r_err r of
                   Some err \<Rightarrow> ([c1, c2], reply_error w err)
                 | None \<Rightarrow>
                     ([c1, c2],
                      envelope OK (''Server set as writeable'')
                        (JInstance (r_instance r)))))))"

text \<open>In \<^verbatim>\<open>KillQuery\<close> the \<^verbatim>\<open>err\<close> of \<^verbatim>\<open>getInstanceKey\<close> is assigned again by
  \<^verbatim>\<open>strconv.ParseInt\<close> before any test reads it (\<open>dropped\<close> below); the second test of
  \<^verbatim>\<open>err\<close> repeats the first and never fires.\<close>

definition KillQuery :: handler where
  "KillQuery w params req user =
     (if \<not> isAuthorizedForAction w req user then ([], unauthorized)
      else
        (case getInstanceKey w (pget params ''host'') (pget params ''port'') of
           (c1, None) \<Rightarrow> ([c1], Panicked)
         | (c1, Some (instanceKey, dropped)) \<Rightarrow>
             (case ParseInt (pget params ''process'') of
                (processId, Some err) \<Rightarrow> ([c1], reply_error w err)
              | (processId, None) \<Rightarrow>
                  (let c2 = Call ''inst.KillQuery'' [AKey instanceKey, AInt processId];
                       r = core w c2
                   in
                     (case r_err r of
                        Some err \<Rightarrow> ([c1, c2], reply_error w err)
                      | None \<Rightarrow>
                          (case r_instance r of
                             None \<Rightarrow> ([c1, c2], Panicked)
                           | Some instance \<Rightarrow>
                               ([c1, c2],
                                envelope OK (''Query killed on : '' @ fmt_key w (Key instance))
                                  (JInstance (r_instance r)))))))))"

definition Cluster :: open_handler where
  "Cluster w params req =
     (let c1 = Call ''inst.ReadClusterInstances''
                 [AStr (pget params ''clusterName'')];
          r = core w c1
      in
        (case r_err r of
           Some err \<Rightarrow> ([c1], reply_error w err)
         | None \<Rightarrow>
             ([c1], JSON 200 (Plain (JInstances (slice r 0))))))"

definition ClusterByAlias :: open_handler where
  "ClusterByAlias w params req =
     (let c1 = Call ''inst.GetClusterByAlias'' [AStr (pget params ''clusterAlias'')];
          a = core w c1
      in
        (case r_err a of
           Some err \<Rightarrow> ([c1], reply_error w err)
         | None \<Rightarrow>
             (case Cluster w (params(''clusterName'' \<mapsto> r_text a)) req of
                (cs, reply) \<Rightarrow> (c1 # cs, reply))))"

definition ClusterByInstance :: open_handler where
  "ClusterByInstance w params req =
     (case getInstanceKey w (pget params ''host'') (pget params ''port'') of
        (c1, None) \<Rightarrow> ([c1], Panicked)
      | (c1, Some (instanceKey, Some err)) \<Rightarrow> ([c1], reply_error w err)
      | (c1, Some (instanceKey, None)) \<Rightarrow>
          (let c2 = Call ''inst.ReadInstance'' [AKey instanceKey];
               r = core w c2
           in
             (if \<not> r_flag r \<or> r_err r \<noteq> None
              then ([c1, c2],
                    envelope ERROR (''Cannot read instance: '' @ fmt_key w instanceKey) JNull)
              else
                (case r_instance r of
                   None \<Rightarrow> ([c1, c2], Panicked)
                 | Some instance \<Rightarrow>
                     (case Cluster w (params(''clusterName'' \<mapsto> ClusterName instance)) req of
                        (cs, reply) \<Rightarrow> ([c1, c2] @ cs, reply))))))"

definition ClusterInfo :: open_handler where
  "ClusterInfo w params req =
     (let c1 = Call ''inst.ReadClusterInfo''
                 [AStr (pget params ''clusterName'')];
          r = core w c1
      in
        (case r_err r of
           Some err \<Rightarrow> ([c1], reply_error w err)
         | None \<Rightarrow>
             ([c1], JSON 200 (Plain (r_out r)))))"

definition ClusterInfoByAlias :: open_handler where
  "ClusterInfoByAlias w params req =
     (let c1 = Call ''inst.GetClusterByAlias'' [AStr (pget params ''clusterAlias'')];
          a = core w c1
      in
        (case r_err a of
           Some err \<Rightarrow> ([c1], reply_error w err)
         | None \<Rightarrow>
             (case ClusterInfo w (params(''clusterName'' \<mapsto> r_text a)) req of
                (cs, reply) \<Rightarrow> (c1 # cs, reply))))"

definition ClusterOSCSlaves :: open_handler where
  "ClusterOSCSlaves w params req =
     (let c1 = Call ''inst.GetClusterOSCSlaves''
                 [AStr (pget params ''clusterName'')];
          r = core w c1
      in
        (case r_err r of
           Some err \<Rightarrow> ([c1], reply_error w err)
         | None \<Rightarrow>
             ([c1], JSON 200 (Plain (JInstances (slice r 0))))))"

definition SetClusterAlias :: handler where
  "SetClusterAlias w params req user =
     (if \<not> isAuthorizedForAction w req user then ([], unauthorized)
      else
        (let clusterName = pget params ''clusterName'';
             alias = Query_Get req ''alias''
         in
           (let c1 = Call ''inst.SetClusterAlias''
                       [AStr clusterName,
                        AStr alias];
                r = core w c1
            in
              (case r_err r of
                 Some err \<Rightarrow> ([c1], reply_error w err)
               | None \<Rightarrow>
                   ([c1],
                    envelope OK (''Cluster '' @ clusterName @ '' now has alias '' @ [CHR 0x27] @ alias @ [CHR 0x27])
                      (JNull))))))"

definition Clusters :: open_handler where
  "Clusters w params req =
     (let c1 = Call ''inst.ReadClusters'' [];
          r = core w c1
      in
        (case r_err r of
           Some err \<Rightarrow> ([c1], reply_error w err)
         | None \<Rightarrow>
             ([c1], JSON 200 (Plain (r_out r)))))"

definition ClustersInfo :: open_handler where
  "ClustersInfo w params req =
     (let c1 = Call ''inst.ReadClustersInfo'' [AStr []];
          r = core w c1
      in
        (case r_err r of
           Some err \<Rightarrow> ([c1], reply_error w err)
         | None \<Rightarrow>
             ([c1], JSON 200 (Plain (r_out r)))))"

definition Search :: open_handler where
  "Search w params req =
     (let searchString = (if pget params ''searchString'' = [] then Query_Get req ''s''
                          else pget params ''searchString'')
      in
        (let c1 = Call ''inst.SearchInstances'' [AStr searchString];
             r = core w c1
         in
           (case r_err r of
              Some err \<Rightarrow> ([c1], reply_error w err)
            | None \<Rightarrow>
                ([c1], JSON 200 (Plain (JInstances (slice r 0)))))))"

definition Problems :: open_handler where
  "Problems w params req =
     (let c1 = Call ''inst.ReadProblemInstances''
                 [AStr (pget params ''clusterName'')];
          r = core w c1
      in
        (case r_err r of
           Some err \<Rightarrow> ([c1], reply_error w err)
         | None \<Rightarrow>
             ([c1], JSON 200 (Plain (JInstances (slice r 0))))))"

definition Audit :: open_handler where
  "Audit w params req =
     (let page = (case Atoi (pget params ''page'') of
                     (n, derr) \<Rightarrow> (if derr \<noteq> None \<or> n < 0 then 0 else n))
      in
        (case getInstanceKey w (pget params ''host'') (pget params ''port'') of
           (c1, None) \<Rightarrow> ([c1], Panicked)
         | (c1, Some (instanceKey, kerr)) \<Rightarrow>
             (let auditedInstanceKey = (if kerr = None then Some instanceKey else None)
              in
                (let c2 = Call ''inst.ReadRecentAudit''
                            [AKeyPtr auditedInstanceKey,
                             AInt page];
                     r = core w c2
                 in
                   (case r_err r of
                      Some err \<Rightarrow> ([c1, c2], reply_error w err)
                    | None \<Rightarrow>
                        ([c1, c2], JSON 200 (Plain (r_out r))))))))"

definition LongQueries :: open_handler where
  "LongQueries w params req =
     (let c1 = Call ''inst.ReadLongRunningProcesses''
                 [AStr (pget params ''filter'')];
          r = core w c1
      in
        (case r_err r of
           Some err \<Rightarrow> ([c1], reply_error w err)
         | None \<Rightarrow>
             ([c1], JSON 200 (Plain (r_out r)))))"

definition HostnameResolveCache :: open_handler where
  "HostnameResolveCache w params req =
     (let c1 = Call ''inst.HostnameResolveCache'' [];
          r = core w c1
      in
        (case r_err r of
           Some err \<Rightarrow> ([c1], reply_error w err)
         | None \<Rightarrow>
             ([c1],
              envelope OK (''Cache retrieved'')
                (r_out r))))"

definition ResetHostnameResolveCache :: handler where
  "ResetHostnameResolveCache w params req user =
     (if \<not> isAuthorizedForAction w req user then ([], unauthorized)
      else
        (let c1 = Call ''inst.ResetHostnameResolveCache'' [];
             r = core w c1
         in
           (case r_err r of
              Some err \<Rightarrow> ([c1], reply_error w err)
            | None \<Rightarrow>
                ([c1],
                 envelope OK (''Hostname cache cleared'')
                   (JNull)))))"

definition SubmitPoolInstances :: handler where
  "SubmitPoolInstances w params req user =
     (if \<not> isAuthorizedForAction w req user then ([], unauthorized)
      else
        (let pool = pget params ''pool'';
             instances = Query_Get req ''instances''
         in
           (let c1 = Call ''inst.ApplyPoolInstances''
                       [AStr pool,
                        AStr instances];
                r = core w c1
            in
              (case r_err r of
                 Some err \<Rightarrow> ([c1], reply_error w err)
               | None \<Rightarrow>
                   ([c1],
                    envelope OK (''Applied '' @ pool @ '' pool instances'')
                      (JNull))))))"

definition ReadClusterPoolInstancesMap :: handler where
  "ReadClusterPoolInstancesMap w params req user =
     (if \<not> isAuthorizedForAction w req user then ([], unauthorized)
      else
        (let clusterName = pget params ''clusterName'';
             pool = pget params ''pool''
         in
           (let c1 = Call ''inst.ReadClusterPoolInstancesMap''
                       [AStr clusterName,
                        AStr pool];
                r = core w c1
            in
              (case r_err r of
                 Some err \<Rightarrow> ([c1], reply_error w err)
               | None \<Rightarrow>
                   ([c1],
                    envelope OK (''Read pool instances for cluster '' @ clusterName)
                      (r_out r))))))"

definition GetHeuristicClusterPoolInstances :: handler where
  "GetHeuristicClusterPoolInstances w params req user =
     (if \<not> isAuthorizedForAction w req user then ([], unauthorized)
      else
        (let c1 = Call ''inst.ReadClusterNameByAlias''
                    [AStr (pget params ''clusterName'')];
             a = core w c1
         in
           (case r_err a of
              Some err \<Rightarrow> ([c1], reply_error w err)
            | None \<Rightarrow>
                (let clusterName = r_text a;
                     pool = pget params ''pool''
                 in
                   (let c2 = Call ''inst.GetHeuristicClusterPoolInstances''
                               [AStr clusterName,
                                AStr pool];
                        r = core w c2
                    in
                      (case r_err r of
                         Some err \<Rightarrow> ([c1, c2], reply_error w err)
                       | None \<Rightarrow>
                           ([c1, c2],
                            envelope OK (''Heuristic pool instances for cluster '' @ clusterName)
                              (r_out r))))))))"

definition GetHeuristicClusterPoolInstancesLag :: handler where
  "GetHeuristicClusterPoolInstancesLag w params req user =
     (if \<not> isAuthorizedForAction w req user then ([], unauthorized)
      else
        (let c1 = Call ''inst.ReadClusterNameByAlias''
                    [AStr (pget params ''clusterName'')];
             a = core w c1
         in
           (case r_err a of
              Some err \<Rightarrow> ([c1], reply_error w err)
            | None \<Rightarrow>
                (let clusterName = r_text a;
                     pool = pget params ''pool''
                 in
                   (let c2 = Call ''inst.GetHeuristicClusterPoolInstancesLag''
                               [AStr clusterName,
                                AStr pool];
                        r = core w c2
                    in
                      (case r_err r of
                         Some err \<Rightarrow> ([c1, c2], reply_error w err)
                       | None \<Rightarrow>
                           ([c1, c2],
                            envelope OK (''Heuristic pool lag for cluster '' @ clusterName)
                              (r_out r))))))))"

definition ReloadClusterAlias :: handler where
  "ReloadClusterAlias w params req user =
     (if \<not> isAuthorizedForAction w req user then ([], unauthorized)
      else
        ([], envelope ERROR ''This API call has been retired'' JNull))"

definition Agents :: handler where
  "Agents w params req user =
     (if \<not> isAuthorizedForAction w req user then ([], unauthorized)
      else
        (if \<not> ServeAgentsHttp (config w)
         then ([], envelope ERROR ''Agents not served'' JNull)
         else
           (let c1 = Call ''agent.ReadAgents'' [];
                r = core w c1
            in
              (case r_err r of
                 Some err \<Rightarrow> ([c1], reply_error w err)
               | None \<Rightarrow>
                   ([c1], JSON 200 (Plain (r_out r)))))))"

definition Agent :: handler where
  "Agent w params req user =
     (if \<not> isAuthorizedForAction w req user then ([], unauthorized)
      else
        (if \<not> ServeAgentsHttp (config w)
         then ([], envelope ERROR ''Agents not served'' JNull)
         else
           (let c1 = Call ''agent.GetAgent'' [AStr (pget params ''host'')];
                r = core w c1
            in
              (case r_err r of
                 Some err \<Rightarrow> ([c1], reply_error w err)
               | None \<Rightarrow>
                   ([c1], JSON 200 (Plain (r_out r)))))))"

definition AgentUnmount :: handler where
  "AgentUnmount w params req user =
     (if \<not> isAuthorizedForAction w req user then ([], unauthorized)
      else
        (if \<not> ServeAgentsHttp (config w)
         then ([], envelope ERROR ''Agents not served'' JNull)
         else
           (let c1 = Call ''agent.Unmount'' [AStr (pget params ''host'')];
                r = core w c1
            in
              (case r_err r of
                 Some err \<Rightarrow> ([c1], reply_error w err)
               | None \<Rightarrow>
                   ([c1], JSON 200 (Plain (r_out r)))))))"

definition AgentMountLV :: handler where
  "AgentMountLV w params req user =
     (if \<not> isAuthorizedForAction w req user then ([], unauthorized)
      else
        (if \<not> ServeAgentsHttp (config w)
         then ([], envelope ERROR ''Agents not served'' JNull)
         else
           (let c1 = Call ''agent.MountLV''
                       [AStr (pget params ''host''),
                        AStr (Query_Get req ''lv'')];
                r = core w c1
            in
              (case r_err r of
                 Some err \<Rightarrow> ([c1], reply_error w err)
               | None \<Rightarrow>
                   ([c1], JSON 200 (Plain (r_out r)))))))"

definition AgentCreateSnapshot :: handler where
  "AgentCreateSnapshot w params req user =
     (if \<not> isAuthorizedForAction w req user then ([], unauthorized)
      else
        (if \<not> ServeAgentsHttp (config w)
         then ([], envelope ERROR ''Agents not served'' JNull)
         else
           (let c1 = Call ''agent.CreateSnapshot''
                       [AStr (pget params ''host'')];
                r = core w c1
            in
              (case r_err r of
                 Some err \<Rightarrow> ([c1], reply_error w err)
               | None \<Rightarrow>
                   ([c1], JSON 200 (Plain (r_out r)))))))"

definition AgentRemoveLV :: handler where
  "AgentRemoveLV w params req user =
     (if \<not> isAuthorizedForAction w req user then ([], unauthorized)
      else
        (if \<not> ServeAgentsHttp (config w)
         then ([], envelope ERROR ''Agents not served'' JNull)
         else
           (let c1 = Call ''agent.RemoveLV''
                       [AStr (pget params ''host''),
                        AStr (Query_Get req ''lv'')];
                r = core w c1
            in
              (case r_err r of
                 Some err \<Rightarrow> ([c1], reply_error w err)
               | None \<Rightarrow>
                   ([c1], JSON 200 (Plain (r_out r)))))))"

definition AgentMySQLStop :: handler where
  "AgentMySQLStop w params req user =
     (if \<not> isAuthorizedForAction w req user then ([], unauthorized)
      else
        (if \<not> ServeAgentsHttp (config w)
         then ([], envelope ERROR ''Agents not served'' JNull)
         else
           (let c1 = Call ''agent.MySQLStop'' [AStr (pget params ''host'')];
                r = core w c1
            in
              (case r_err r of
                 Some err \<Rightarrow> ([c1], reply_error w err)
               | None \<Rightarrow>
                   ([c1], JSON 200 (Plain (r_out r)))))))"

definition AgentMySQLStart :: handler where
  "AgentMySQLStart w params req user =
     (if \<not> isAuthorizedForAction w req user then ([], unauthorized)
      else
        (if \<not> ServeAgentsHttp (config w)
         then ([], envelope ERROR ''Agents not served'' JNull)
         else
           (let c1 = Call ''agent.MySQLStart'' [AStr (pget params ''host'')];
                r = core w c1
            in
              (case r_err r of
                 Some err \<Rightarrow> ([c1], reply_error w err)
               | None \<Rightarrow>
                   ([c1], JSON 200 (Plain (r_out r)))))))"

definition AgentCustomCommand :: handler where
  "AgentCustomCommand w params req user =
     (if \<not> isAuthorizedForAction w req user then ([], unauthorized)
      else
        (if \<not> ServeAgentsHttp (config w)
         then ([], envelope ERROR ''Agents not served'' JNull)
         else
           (let c1 = Call ''agent.CustomCommand''
                       [AStr (pget params ''host''),
                        AStr (pget params ''cmd'')];
                r = core w c1
            in
              (case r_err r of
                 Some err \<Rightarrow> ([c1], reply_error w err)
               | None \<Rightarrow>
                   ([c1], JSON 200 (Plain (r_out r)))))))"

definition AgentSeed :: handler where
  "AgentSeed w params req user =
     (if \<not> isAuthorizedForAction w req user then ([], unauthorized)
      else
        (if \<not> ServeAgentsHttp (config w)
         then ([], envelope ERROR ''Agents not served'' JNull)
         else
           (let c1 = Call ''agent.Seed''
                       [AStr (pget params ''targetHost''),
                        AStr (pget params ''sourceHost'')];
                r = core w c1
            in
              (case r_err r of
                 Some err \<Rightarrow> ([c1], reply_error w err)
               | None \<Rightarrow>
                   ([c1], JSON 200 (Plain (r_out r)))))))"

definition AgentActiveSeeds :: handler where
  "AgentActiveSeeds w params req user =
     (if \<not> isAuthorizedForAction w req user then ([], unauthorized)
      else
        (if \<not> ServeAgentsHttp (config w)
         then ([], envelope ERROR ''Agents not served'' JNull)
         else
           (let c1 = Call ''agent.ReadActiveSeedsForHost''
                       [AStr (pget params ''host'')];
                r = core w c1
            in
              (case r_err r of
                 Some err \<Rightarrow> ([c1], reply_error w err)
               | None \<Rightarrow>
                   ([c1], JSON 200 (Plain (r_out r)))))))"

definition AgentRecentSeeds :: handler where
  "AgentRecentSeeds w params req user =
     (if \<not> isAuthorizedForAction w req user then ([], unauthorized)
      else
        (if \<not> ServeAgentsHttp (config w)
         then ([], envelope ERROR ''Agents not served'' JNull)
         else
           (let c1 = Call ''agent.ReadRecentCompletedSeedsForHost''
                       [AStr (pget params ''host'')];
                r = core w c1
            in
              (case r_err r of
                 Some err \<Rightarrow> ([c1], reply_error w err)
               | None \<Rightarrow>
                   ([c1], JSON 200 (Plain (r_out r)))))))"

text \<open>The seed handlers assign the \<^verbatim>\<open>err\<close> of \<^verbatim>\<open>strconv.ParseInt\<close> again with the next call,
  before any test reads it: only the value that was parsed is kept.\<close>

definition AgentSeedDetails :: handler where
  "AgentSeedDetails w params req user =
     (if \<not> isAuthorizedForAction w req user then ([], unauthorized)
      else
        (if \<not> ServeAgentsHttp (config w)
         then ([], envelope ERROR ''Agents not served'' JNull)
         else
           (let seedId = fst (ParseInt (pget params ''seedId''))
            in
              (let c1 = Call ''agent.AgentSeedDetails'' [AInt seedId];
                   r = core w c1
               in
                 (case r_err r of
                    Some err \<Rightarrow> ([c1], reply_error w err)
                  | None \<Rightarrow>
                      ([c1], JSON 200 (Plain (r_out r))))))))"

definition AgentSeedStates :: handler where
  "AgentSeedStates w params req user =
     (if \<not> isAuthorizedForAction w req user then ([], unauthorized)
      else
        (if \<not> ServeAgentsHttp (config w)
         then ([], envelope ERROR ''Agents not served'' JNull)
         else
           (let seedId = fst (ParseInt (pget params ''seedId''))
            in
              (let c1 = Call ''agent.ReadSeedStates'' [AInt seedId];
                   r = core w c1
               in
                 (case r_err r of
                    Some err \<Rightarrow> ([c1], reply_error w err)
                  | None \<Rightarrow>
                      ([c1], JSON 200 (Plain (r_out r))))))))"

definition Seeds :: handler where
  "Seeds w params req user =
     (if \<not> isAuthorizedForAction w req user then ([], unauthorized)
      else
        (if \<not> ServeAgentsHttp (config w)
         then ([], envelope ERROR ''Agents not served'' JNull)
         else
           (let c1 = Call ''agent.ReadRecentSeeds'' [];
                r = core w c1
            in
              (case r_err r of
                 Some err \<Rightarrow> ([c1], reply_error w err)
               | None \<Rightarrow>
                   ([c1], JSON 200 (Plain (r_out r)))))))"

text \<open>\<^verbatim>\<open>AbortSeed\<close> ends with \<^verbatim>\<open>r.JSON(200, err == nil)\<close>, reached only when \<^verbatim>\<open>err\<close> is nil.\<close>

definition AbortSeed :: handler where
  "AbortSeed w params req user =
     (if \<not> isAuthorizedForAction w req user then ([], unauthorized)
      else
        (if \<not> ServeAgentsHttp (config w)
         then ([], envelope ERROR ''Agents not served'' JNull)
         else
           (let seedId = fst (ParseInt (pget params ''seedId''))
            in
              (let c1 = Call ''agent.AbortSeed'' [AInt seedId];
                   r = core w c1
               in
                 (case r_err r of
                    Some err \<Rightarrow> ([c1], reply_error w err)
                  | None \<Rightarrow>
                      ([c1], JSON 200 (Plain (JBool True))))))))"

definition Headers :: open_handler where
  "Headers w params req =
     ([], JSON 200 (Plain (Header req)))"

definition Health :: open_handler where
  "Health w params req =
     (let c1 = Call ''process.HealthTest'' [];
          r = core w c1
      in
        (case r_err r of
           Some err \<Rightarrow>
             ([c1], envelope ERROR (''Application node is unhealthy '' @ Error w err) (r_out r))
         | None \<Rightarrow> ([c1], envelope OK ''Application node is healthy'' (r_out r))))"

definition LBCheck :: open_handler where
  "LBCheck w params req =
     ([], JSON 200 (Plain (JString ''OK'')))"

text \<open>\<^verbatim>\<open>StatusCheck\<close> is the one handler that answers with the status 500.\<close>

definition StatusCheck :: open_handler where
  "StatusCheck w params req =
     (let c1 = (if StatusSimpleHealth (config w) then Call ''process.SimpleHealthTest'' []
                else Call ''process.HealthTest'' []);
          r = core w c1
      in
        (case r_err r of
           Some err \<Rightarrow>
             ([c1],
              JSON 500 (Envelope \<lparr>Code = ERROR,
                                  Message = ''Application node is unhealthy '' @ Error w err,
                                  Details = r_out r\<rparr>))
         | None \<Rightarrow> ([c1], envelope OK ''Application node is healthy'' (r_out r))))"

definition GrabElection :: handler where
  "GrabElection w params req user =
     (if \<not> isAuthorizedForAction w req user then ([], unauthorized)
      else
        (let c1 = Call ''process.GrabElection'' [];
             r = core w c1
         in
           (case r_err r of
              Some err \<Rightarrow> ([c1], envelope ERROR (''Unable to grab election: '' @ Error w err) JNull)
            | None \<Rightarrow>
                ([c1],
                 envelope OK (''Node elected as leader'')
                   (JNull)))))"

definition Reelect :: handler where
  "Reelect w params req user =
     (if \<not> isAuthorizedForAction w req user then ([], unauthorized)
      else
        (let c1 = Call ''process.Reelect'' [];
             r = core w c1
         in
           (case r_err r of
              Some err \<Rightarrow> ([c1], envelope ERROR (''Unable to re-elect: '' @ Error w err) JNull)
            | None \<Rightarrow>
                ([c1],
                 envelope OK (''Set re-elections'')
                   (JNull)))))"

definition ReloadConfiguration :: handler where
  "ReloadConfiguration w params req user =
     (if \<not> isAuthorizedForAction w req user then ([], unauthorized)
      else
        (let c1 = Call ''config.Reload'' [];
             c2 = Call ''inst.AuditOperation'' [AStr ''reload-configuration'', ANil, AStr ''Triggered via API'']
         in ([c1, c2], envelope OK ''Config reloaded'' JNull)))"

definition ReplicationAnalysis :: open_handler where
  "ReplicationAnalysis w params req =
     (let c1 = Call ''inst.GetReplicationAnalysis''
                 [AStr (pget params ''clusterName''),
                  ABool True,
                  ABool False];
          r = core w c1
      in
        (case r_err r of
           Some err \<Rightarrow> ([c1], envelope ERROR (''Cannot get analysis: '' @ Error w err) JNull)
         | None \<Rightarrow>
             ([c1],
              envelope OK (''Analysis'')
                (r_out r))))"

text \<open>\<^verbatim>\<open>Recover\<close> attempts recovery on a given instance; the third argument of
  \<^verbatim>\<open>logic.CheckAndRecover\<close> is \<^verbatim>\<open>skipProcesses\<close>.\<close>

definition Recover :: handler where
  "Recover w params req user =
     (if \<not> isAuthorizedForAction w req user then ([], unauthorized)
      else
        (case getInstanceKey w (pget params ''host'') (pget params ''port'') of
           (c1, None) \<Rightarrow> ([c1], Panicked)
         | (c1, Some (instanceKey, Some err)) \<Rightarrow> ([c1], reply_error w err)
         | (c1, Some (instanceKey, None)) \<Rightarrow>
             (case getInstanceKey w (pget params ''candidateHost'') (pget params ''candidatePort'') of
                (c2, None) \<Rightarrow> ([c1, c2], Panicked)
              | (c2, Some (k, kerr)) \<Rightarrow>
                  (let candidateKey = (if kerr = None then Some k else None);
                       skipProcesses = (Query_Get req ''skipProcesses'' = ''true'' \<or>
                                        pget params ''skipProcesses'' = ''true'')
                   in
                     (let c3 = Call ''logic.CheckAndRecover''
                                 [AKey instanceKey,
                                  AKeyPtr candidateKey,
                                  ABool skipProcesses];
                          r = core w c3
                      in
                        (case r_err r of
                           Some err \<Rightarrow> ([c1, c2, c3], reply_error w err)
                         | None \<Rightarrow>
                             (if r_flag r
                              then ([c1, c2, c3], envelope OK ''Action taken'' (JKey instanceKey))
                              else ([c1, c2, c3], envelope OK ''No action taken'' (JKey instanceKey)))))))))"

text \<open>\<^verbatim>\<open>RecoverLite\<close> sets \<^verbatim>\<open>params["skipProcesses"] = "true"\<close> and calls \<^verbatim>\<open>Recover\<close>.\<close>

definition RecoverLite :: handler where
  "RecoverLite w params req user = Recover w (params(''skipProcesses'' \<mapsto> ''true'')) req user"

definition RegisterCandidate :: handler where
  "RegisterCandidate w params req user =
     (if \<not> isAuthorizedForAction w req user then ([], unauthorized)
      else
        (case getInstanceKey w (pget params ''host'') (pget params ''port'') of
           (c1, None) \<Rightarrow> ([c1], Panicked)
         | (c1, Some (instanceKey, Some err)) \<Rightarrow> ([c1], reply_error w err)
         | (c1, Some (instanceKey, None)) \<Rightarrow>
             (let c2 = Call ''inst.ParseCandidatePromotionRule''
                         [AStr (pget params ''promotionRule'')];
                  p = core w c2
              in
                (case r_err p of
                   Some err \<Rightarrow> ([c1, c2], reply_error w err)
                 | None \<Rightarrow>
                     (let c3 = Call ''inst.RegisterCandidateInstance''
                                 [AKey instanceKey,
                                  AValue (r_out p)];
                          r = core w c3
                      in
                        (case r_err r of
                           Some err \<Rightarrow> ([c1, c2, c3], reply_error w err)
                         | None \<Rightarrow>
                             ([c1, c2, c3],
                              envelope OK (''Registered candidate'')
                                (JKey instanceKey))))))))"

definition AutomatedRecoveryFilters :: open_handler where
  "AutomatedRecoveryFilters w params req =
     ([], envelope OK ''Automated recovery configuration details''
            (JMap [(''RecoverMasterClusterFilters'', RecoverMasterClusterFilters (config w)),
                   (''RecoverIntermediateMasterClusterFilters'',
                    RecoverIntermediateMasterClusterFilters (config w)),
                   (''RecoveryIgnoreHostnameFilters'', RecoveryIgnoreHostnameFilters (config w))]))"

definition AuditFailureDetection :: open_handler where
  "AuditFailureDetection w params req =
     (let c1 = (case ParseInt (pget params ''id'') of
                  (n, derr) \<Rightarrow>
                    if derr = None \<and> n > 0 then Call ''logic.ReadFailureDetection'' [AInt n]
                    else
                      (let page = (case Atoi (pget params ''page'') of
                                      (n, derr) \<Rightarrow> (if derr \<noteq> None \<or> n < 0 then 0 else n))
                       in Call ''logic.ReadRecentFailureDetections'' [AInt page]));
          r = core w c1
      in
        (case r_err r of
           Some err \<Rightarrow> ([c1], reply_error w err)
         | None \<Rightarrow>
             ([c1], JSON 200 (Plain (JRecoveries (r_recoveries r))))))"

definition ReadReplicationAnalysisChangelog :: open_handler where
  "ReadReplicationAnalysisChangelog w params req =
     (let c1 = Call ''inst.ReadReplicationAnalysisChangelog'' [];
          r = core w c1
      in
        (case r_err r of
           Some err \<Rightarrow> ([c1], reply_error w err)
         | None \<Rightarrow>
             ([c1], JSON 200 (Plain (r_out r)))))"

definition AuditRecovery :: open_handler where
  "AuditRecovery w params req =
     (let c1 = (case ParseInt (pget params ''id'') of
                  (n, derr) \<Rightarrow>
                    if derr = None \<and> n > 0 then Call ''logic.ReadRecovery'' [AInt n]
                    else
                      (let page = (case Atoi (pget params ''page'') of
                                      (n, derr) \<Rightarrow> (if derr \<noteq> None \<or> n < 0 then 0 else n))
                       in (let unacknowledgedOnly = (Query_Get req ''unacknowledged'' = ''true'')
                           in Call ''logic.ReadRecentRecoveries''
                                [AStr (pget params ''clusterName''), ABool unacknowledgedOnly, AInt page])));
          r = core w c1
      in
        (case r_err r of
           Some err \<Rightarrow> ([c1], reply_error w err)
         | None \<Rightarrow>
             ([c1], JSON 200 (Plain (JRecoveries (r_recoveries r))))))"

text \<open>\<^verbatim>\<open>ActiveClusterRecovery\<close> returns the recoveries in progress for a given cluster.\<close>

definition ActiveClusterRecovery :: open_handler where
  "ActiveClusterRecovery w params req =
     (let c1 = Call ''logic.ReadActiveClusterRecovery''
                 [AStr (pget params ''clusterName'')];
          r = core w c1
      in
        (case r_err r of
           Some err \<Rightarrow> ([c1], reply_error w err)
         | None \<Rightarrow>
             ([c1], JSON 200 (Plain (JRecoveries (r_recoveries r))))))"

definition RecentlyActiveClusterRecovery :: open_handler where
  "RecentlyActiveClusterRecovery w params req =
     (let c1 = Call ''logic.ReadRecentlyActiveClusterRecovery''
                 [AStr (pget params ''clusterName'')];
          r = core w c1
      in
        (case r_err r of
           Some err \<Rightarrow> ([c1], reply_error w err)
         | None \<Rightarrow>
             ([c1], JSON 200 (Plain (JRecoveries (r_recoveries r))))))"

definition RecentlyActiveInstanceRecovery :: open_handler where
  "RecentlyActiveInstanceRecovery w params req =
     (case getInstanceKey w (pget params ''host'') (pget params ''port'') of
        (c1, None) \<Rightarrow> ([c1], Panicked)
      | (c1, Some (instanceKey, Some err)) \<Rightarrow> ([c1], reply_error w err)
      | (c1, Some (instanceKey, None)) \<Rightarrow>
          (let c2 = Call ''logic.ReadRecentlyActiveInstanceRecovery''
                      [AKey instanceKey];
               r = core w c2
           in
             (case r_err r of
                Some err \<Rightarrow> ([c1, c2], reply_error w err)
              | None \<Rightarrow>
                  ([c1, c2], JSON 200 (Plain (JRecoveries (r_recoveries r)))))))"

text \<open>
  The three acknowledgement handlers share these lines:
  \<^verbatim>\<open>userId := getUserId(req, user); if userId == "" { userId = inst.GetMaintenanceOwner() }\<close>.
  The result is the call made, if any, and the user id.
\<close>

definition acting_user :: "world \<Rightarrow> request \<Rightarrow> user \<Rightarrow> call list \<times> string" where
  "acting_user w req user =
     (let userId = getUserId w req user
      in if userId = []
         then (let c = Call ''inst.GetMaintenanceOwner'' [] in ([c], r_text (core w c)))
         else ([], userId))"

text \<open>The three acknowledgement handlers. Each reads the \<^verbatim>\<open>comment\<close> query parameter and
  refuses an empty one. \<^verbatim>\<open>AcknowledgeClusterRecoveries\<close> first takes the cluster name from
  the path, or from the alias when the path gives one.\<close>

definition AcknowledgeClusterRecoveries :: handler where
  "AcknowledgeClusterRecoveries w params req user =
     (if \<not> isAuthorizedForAction w req user then ([], unauthorized)
      else
        (case (if pget params ''clusterAlias'' \<noteq> []
               then (let c1 = Call ''inst.GetClusterByAlias'' [AStr (pget params ''clusterAlias'')];
                         a = core w c1
                     in ([c1], r_text a, r_err a))
               else ([], pget params ''clusterName'', None)) of
           (cs, clusterName, Some err) \<Rightarrow> (cs, reply_error w err)
         | (cs, clusterName, None) \<Rightarrow>
             (let comment = Query_Get req ''comment''
              in
                (if comment = []
                 then (cs, envelope ERROR ''No acknowledge comment given'' JNull)
                 else
                   (case acting_user w req user of
                      (cu, userId) \<Rightarrow>
                        (let c = Call ''logic.AcknowledgeClusterRecoveries''
                                   [AStr clusterName, AStr userId, AStr comment];
                             r = core w c
                         in
                           (case r_err r of
                              Some err \<Rightarrow> (cs @ cu @ [c], reply_error w err)
                            | None \<Rightarrow>
                                (cs @ cu @ [c], JSON 200 (Plain (JInt (r_count r)))))))))))"

definition AcknowledgeInstanceRecoveries :: handler where
  "AcknowledgeInstanceRecoveries w params req user =
     (if \<not> isAuthorizedForAction w req user then ([], unauthorized)
      else
        (case getInstanceKey w (pget params ''host'') (pget params ''port'') of
           (c1, None) \<Rightarrow> ([c1], Panicked)
         | (c1, Some (instanceKey, Some err)) \<Rightarrow> ([c1], reply_error w err)
         | (c1, Some (instanceKey, None)) \<Rightarrow>
             (let comment = Query_Get req ''comment''
              in
                (if comment = []
                 then ([c1], envelope ERROR ''No acknowledge comment given'' JNull)
                 else
                   (case acting_user w req user of
                      (cu, userId) \<Rightarrow>
                        (let c = Call ''logic.AcknowledgeInstanceRecoveries''
                                   [AKey instanceKey, AStr userId, AStr comment];
                             r = core w c
                         in
                           (case r_err r of
                              Some err \<Rightarrow> ([c1] @ cu @ [c], reply_error w err)
                            | None \<Rightarrow>
                                ([c1] @ cu @ [c], JSON 200 (Plain (JInt (r_count r)))))))))))"

definition AcknowledgeRecovery :: handler where
  "AcknowledgeRecovery w params req user =
     (if \<not> isAuthorizedForAction w req user then ([], unauthorized)
      else
        (case ParseInt (pget params ''recoveryId'') of
           (recoveryId, Some err) \<Rightarrow> ([], reply_error w err)
         | (recoveryId, None) \<Rightarrow>
             (let comment = Query_Get req ''comment''
              in
                (if comment = []
                 then ([], envelope ERROR ''No acknowledge comment given'' JNull)
                 else
                   (case acting_user w req user of
                      (cu, userId) \<Rightarrow>
                        (let c = Call ''logic.AcknowledgeRecovery''
                                   [AInt recoveryId, AStr userId, AStr comment];
                             r = core w c
                         in
                           (case r_err r of
                              Some err \<Rightarrow> ([] @ cu @ [c], reply_error w err)
                            | None \<Rightarrow>
                                ([] @ cu @ [c], JSON 200 (Plain (JInt (r_count r)))))))))))"

definition BlockedRecoveries :: open_handler where
  "BlockedRecoveries w params req =
     (let c1 = Call ''logic.ReadBlockedRecoveries''
                 [AStr (pget params ''clusterName'')];
          r = core w c1
      in
        (case r_err r of
           Some err \<Rightarrow> ([c1], reply_error w err)
         | None \<Rightarrow>
             ([c1], JSON 200 (Plain (r_out r)))))"

subsection \<open>The routes\<close>

text \<open>
  \<^verbatim>\<open>RegisterRequests\<close> registers every route with \<^verbatim>\<open>m.Get(pattern, handler)\<close>. The router
  hands the \<^verbatim>\<open>user\<close> only to the handlers that declare it; \<open>open_route\<close> drops it for the
  others. The last pattern is \<^verbatim>\<open>config.Config.StatusEndpoint\<close>.
\<close>

definition open_route :: "open_handler \<Rightarrow> handler" where
  "open_route h = (\<lambda>w params req user. h w params req)"

definition RegisterRequests :: "world \<Rightarrow> (string \<times> handler) list" where
  "RegisterRequests w =
     [
      (''/api/relocate/:host/:port/:belowHost/:belowPort'', RelocateBelow),
      (''/api/relocate-below/:host/:port/:belowHost/:belowPort'', RelocateBelow),
      (''/api/relocate-slaves/:host/:port/:belowHost/:belowPort'', RelocateSlaves),
      (''/api/regroup-slaves/:host/:port'', RegroupSlaves),
      (''/api/move-up/:host/:port'', MoveUp),
      (''/api/move-up-slaves/:host/:port'', MoveUpSlaves),
      (''/api/move-below/:host/:port/:siblingHost/:siblingPort'', MoveBelow),
      (''/api/move-equivalent/:host/:port/:belowHost/:belowPort'', MoveEquivalent),
      (''/api/repoint-slaves/:host/:port'', RepointSlaves),
      (''/api/make-co-master/:host/:port'', MakeCoMaster),
      (''/api/enslave-siblings/:host/:port'', EnslaveSiblings),
      (''/api/enslave-master/:host/:port'', EnslaveMaster),
      (''/api/master-equivalent/:host/:port/:logFile/:logPos'', MasterEquivalent),
      (''/api/regroup-slaves-bls/:host/:port'', RegroupSlavesBinlogServers),
      (''/api/move-below-gtid/:host/:port/:belowHost/:belowPort'', MoveBelowGTID),
      (''/api/move-slaves-gtid/:host/:port/:belowHost/:belowPort'', MoveSlavesGTID),
      (''/api/regroup-slaves-gtid/:host/:port'', RegroupSlavesGTID),
      (''/api/match/:host/:port/:belowHost/:belowPort'', MatchBelow),
      (''/api/match-below/:host/:port/:belowHost/:belowPort'', MatchBelow),
      (''/api/match-up/:host/:port'', MatchUp),
      (''/api/match-slaves/:host/:port/:belowHost/:belowPort'', MultiMatchSlaves),
      (''/api/multi-match-slaves/:host/:port/:belowHost/:belowPort'', MultiMatchSlaves),
      (''/api/match-up-slaves/:host/:port'', MatchUpSlaves),
      (''/api/regroup-slaves-pgtid/:host/:port'', RegroupSlavesPseudoGTID),
      (''/api/make-master/:host/:port'', MakeMaster),
      (''/api/make-local-master/:host/:port'', MakeLocalMaster),
      (''/api/enable-gtid/:host/:port'', EnableGTID),
      (''/api/disable-gtid/:host/:port'', DisableGTID),
      (''/api/skip-query/:host/:port'', SkipQuery),
      (''/api/start-slave/:host/:port'', StartSlave),
      (''/api/restart-slave/:host/:port'', RestartSlave),
      (''/api/stop-slave/:host/:port'', StopSlave),
      (''/api/stop-slave-nice/:host/:port'', StopSlaveNicely),
      (''/api/reset-slave/:host/:port'', ResetSlave),
      (''/api/detach-slave/:host/:port'', DetachSlave),
      (''/api/reattach-slave/:host/:port'', ReattachSlave),
      (''/api/reattach-slave-master-host/:host/:port'', ReattachSlaveMasterHost),
      (''/api/set-read-only/:host/:port'', SetReadOnly),
      (''/api/set-writeable/:host/:port'', SetWriteable),
      (''/api/kill-query/:host/:port/:process'', KillQuery),
      (''/api/last-pseudo-gtid/:host/:port'', LastPseudoGTID),
      (''/api/submit-pool-instances/:pool'', SubmitPoolInstances),
      (''/api/cluster-pool-instances/:clusterName'', ReadClusterPoolInstancesMap),
      (''/api/cluster-pool-instances/:clusterName/:pool'', ReadClusterPoolInstancesMap),
      (''/api/heuristic-cluster-pool-instances/:clusterName'', GetHeuristicClusterPoolInstances),
      (''/api/heuristic-cluster-pool-instances/:clusterName/:pool'', GetHeuristicClusterPoolInstances),
      (''/api/heuristic-cluster-pool-lag/:clusterName'', GetHeuristicClusterPoolInstancesLag),
      (''/api/heuristic-cluster-pool-lag/:clusterName/:pool'', GetHeuristicClusterPoolInstancesLag),
      (''/api/search/:searchString'', open_route Search),
      (''/api/search'', open_route Search),
      (''/api/cluster/:clusterName'', open_route Cluster),
      (''/api/cluster/alias/:clusterAlias'', open_route ClusterByAlias),
      (''/api/cluster/instance/:host/:port'', open_route ClusterByInstance),
      (''/api/cluster-info/:clusterName'', open_route ClusterInfo),
      (''/api/cluster-info/alias/:clusterAlias'', open_route ClusterInfoByAlias),
      (''/api/cluster-osc-slaves/:clusterName'', open_route ClusterOSCSlaves),
      (''/api/set-cluster-alias/:clusterName'', SetClusterAlias),
      (''/api/clusters'', open_route Clusters),
      (''/api/clusters-info'', open_route ClustersInfo),
      (''/api/instance/:host/:port'', open_route Instance),
      (''/api/discover/:host/:port'', Discover),
      (''/api/refresh/:host/:port'', Refresh),
      (''/api/forget/:host/:port'', Forget),
      (''/api/begin-maintenance/:host/:port/:owner/:reason'', BeginMaintenance),
      (''/api/end-maintenance/:host/:port'', EndMaintenanceByInstanceKey),
      (''/api/end-maintenance/:maintenanceKey'', EndMaintenance),
      (''/api/begin-downtime/:host/:port/:owner/:reason'', BeginDowntime),
      (''/api/begin-downtime/:host/:port/:owner/:reason/:duration'', BeginDowntime),
      (''/api/end-downtime/:host/:port'', EndDowntime),
      (''/api/replication-analysis'', open_route ReplicationAnalysis),
      (''/api/replication-analysis/:clusterName'', open_route ReplicationAnalysis),
      (''/api/recover/:host/:port'', Recover),
      (''/api/recover/:host/:port/:candidateHost/:candidatePort'', Recover),
      (''/api/recover-lite/:host/:port'', RecoverLite),
      (''/api/recover-lite/:host/:port/:candidateHost/:candidatePort'', RecoverLite),
      (''/api/register-candidate/:host/:port/:promotionRule'', RegisterCandidate),
      (''/api/automated-recovery-filters'', open_route AutomatedRecoveryFilters),
      (''/api/audit-failure-detection'', open_route AuditFailureDetection),
      (''/api/audit-failure-detection/:page'', open_route AuditFailureDetection),
      (''/api/audit-failure-detection/id/:id'', open_route AuditFailureDetection),
      (''/api/replication-analysis-changelog'', open_route ReadReplicationAnalysisChangelog),
      (''/api/audit-recovery'', open_route AuditRecovery),
      (''/api/audit-recovery/:page'', open_route AuditRecovery),
      (''/api/audit-recovery/id/:id'', open_route AuditRecovery),
      (''/api/audit-recovery/cluster/:clusterName'', open_route AuditRecovery),
      (''/api/audit-recovery/cluster/:clusterName/:page'', open_route AuditRecovery),
      (''/api/active-cluster-recovery/:clusterName'', open_route ActiveClusterRecovery),
      (''/api/recently-active-cluster-recovery/:clusterName'', open_route RecentlyActiveClusterRecovery),
      (''/api/recently-active-instance-recovery/:host/:port'', open_route RecentlyActiveInstanceRecovery),
      (''/api/ack-recovery/cluster/:clusterName'', AcknowledgeClusterRecoveries),
      (''/api/ack-recovery/cluster/alias/:clusterAlias'', AcknowledgeClusterRecoveries),
      (''/api/ack-recovery/instance/:host/:port'', AcknowledgeInstanceRecoveries),
      (''/api/ack-recovery/:recoveryId'', AcknowledgeRecovery),
      (''/api/blocked-recoveries'', open_route BlockedRecoveries),
      (''/api/blocked-recoveries/cluster/:clusterName'', open_route BlockedRecoveries),
      (''/api/problems'', open_route Problems),
      (''/api/problems/:clusterName'', open_route Problems),
      (''/api/long-queries'', open_route LongQueries),
      (''/api/long-queries/:filter'', open_route LongQueries),
      (''/api/audit'', open_route Audit),
      (''/api/audit/:page'', open_route Audit),
      (''/api/audit/instance/:host/:port'', open_route Audit),
      (''/api/audit/instance/:host/:port/:page'', open_route Audit),
      (''/api/resolve/:host/:port'', open_route Resolve),
      (''/api/maintenance'', open_route Maintenance),
      (''/api/headers'', open_route Headers),
      (''/api/health'', open_route Health),
      (''/api/lb-check'', open_route LBCheck),
      (''/api/grab-election'', GrabElection),
      (''/api/reelect'', Reelect),
      (''/api/reload-configuration'', ReloadConfiguration),
      (''/api/reload-cluster-alias'', ReloadClusterAlias),
      (''/api/hostname-resolve-cache'', open_route HostnameResolveCache),
      (''/api/reset-hostname-resolve-cache'', ResetHostnameResolveCache),
      (''/api/agents'', Agents),
      (''/api/agent/:host'', Agent),
      (''/api/agent-umount/:host'', AgentUnmount),
      (''/api/agent-mount/:host'', AgentMountLV),
      (''/api/agent-create-snapshot/:host'', AgentCreateSnapshot),
      (''/api/agent-removelv/:host'', AgentRemoveLV),
      (''/api/agent-mysql-stop/:host'', AgentMySQLStop),
      (''/api/agent-mysql-start/:host'', AgentMySQLStart),
      (''/api/agent-seed/:targetHost/:sourceHost'', AgentSeed),
      (''/api/agent-active-seeds/:host'', AgentActiveSeeds),
      (''/api/agent-recent-seeds/:host'', AgentRecentSeeds),
      (''/api/agent-seed-details/:seedId'', AgentSeedDetails),
      (''/api/agent-seed-states/:seedId'', AgentSeedStates),
      (''/api/agent-abort-seed/:seedId'', AbortSeed),
      (''/api/agent-custom-command/:host/:command'', AgentCustomCommand),
      (''/api/seeds'', Seeds),
      (StatusEndpoint (config w), open_route StatusCheck)
     ]"

subsection \<open>Reading a trace and a route\<close>

fun call_name :: "call \<Rightarrow> string" where
  "call_name (Call name args) = name"

text \<open>The three operations of \<^verbatim>\<open>logic\<close> that record an acknowledgement.\<close>

definition acknowledgements :: "string list" where
  "acknowledgements =
     [''logic.AcknowledgeRecovery'', ''logic.AcknowledgeClusterRecoveries'',
      ''logic.AcknowledgeInstanceRecoveries'']"

text \<open>
  A route pattern is cut at every \<open>/\<close>; a segment \<open>:name\<close> binds the parameter \<open>name\<close>.
  The router hands a handler a map that binds the names of the matched pattern and no
  other.
\<close>

fun segments :: "string \<Rightarrow> string list" where
  "segments [] = [[]]"
| "segments (c # cs) =
     (if c = CHR ''/'' then [] # segments cs
      else (case segments cs of [] \<Rightarrow> [[c]] | s # ss \<Rightarrow> (c # s) # ss))"

definition pattern_params :: "string \<Rightarrow> string list" where
  "pattern_params pattern = map tl (filter (\<lambda>s. take 1 s = '':'') (segments pattern))"

definition bound_by :: "string \<Rightarrow> params \<Rightarrow> bool" where
  "bound_by pattern params = (dom params = set (pattern_params pattern))"

definition recover_routes :: "string list" where
  "recover_routes =
     [''/api/recover/:host/:port'',
      ''/api/recover/:host/:port/:candidateHost/:candidatePort'']"

definition recover_lite_routes :: "string list" where
  "recover_lite_routes =
     [''/api/recover-lite/:host/:port'',
      ''/api/recover-lite/:host/:port/:candidateHost/:candidatePort'']"

subsection \<open>A concrete world\<close>

text \<open>
  The theorems below are stated for every world. To run a handler the definitions here
  give one world: every call answers with the zero value of each result, except the calls
  listed in \<open>answers\<close> and the two key parsers, which build the key from the host and the
  port and report a port that is no number.
\<close>

definition ret0 :: ret where
  "ret0 = \<lparr>r_err = None, r_errs = [], r_instance = None, r_key = None, r_slices = [],
            r_count = 0, r_flag = False, r_text = [], r_coordinates = None, r_rows = [],
            r_recoveries = [], r_out = JNull\<rparr>"

definition config0 :: Config where
  "config0 = \<lparr>ServeAgentsHttp = True, StatusSimpleHealth = False, StatusEndpoint = ''/api/status'',
               RecoverMasterClusterFilters = JList [],
               RecoverIntermediateMasterClusterFilters = JList [],
               RecoveryIgnoreHostnameFilters = JList []\<rparr>"

definition parse_key :: "string \<Rightarrow> string \<Rightarrow> ret" where
  "parse_key host port =
     (case Atoi port of
        (n, None) \<Rightarrow> ret0\<lparr>r_key := Some \<lparr>Hostname = host, Port = n\<rparr>\<rparr>
      | (n, Some e) \<Rightarrow>
          ret0\<lparr>r_key := Some \<lparr>Hostname = host, Port = n\<rparr>,
               r_err := Some (ErrorString (''Invalid port: '' @ port))\<rparr>)"

definition example_core :: "(call \<rightharpoonup> ret) \<Rightarrow> call \<Rightarrow> ret" where
  "example_core answers c =
     (case answers c of
        Some r \<Rightarrow> r
      | None \<Rightarrow>
          (case c of
             Call name [AStr host, AStr port] \<Rightarrow>
               if name = ''inst.NewInstanceKeyFromStrings'' then parse_key host port else ret0
           | Call name [AStr hostPort] \<Rightarrow>
               if name = ''inst.NewRawInstanceKey''
               then parse_key (takeWhile (\<lambda>ch. ch \<noteq> CHR '':'') hostPort)
                              (drop 1 (dropWhile (\<lambda>ch. ch \<noteq> CHR '':'') hostPort))
               else ret0
           | _ \<Rightarrow> ret0))"

definition show_key :: "InstanceKey \<Rightarrow> string" where
  "show_key k = Hostname k @ '':'' @ FormatInt (Port k)"

definition example_world :: "bool \<Rightarrow> (call \<rightharpoonup> ret) \<Rightarrow> world" where
  "example_world authorized answers =
     \<lparr>isAuthorizedForAction = (\<lambda>req user. authorized),
      getUserId = (\<lambda>req user. user),
      core = example_core answers,
      fmt_key = show_key,
      fmt_coordinates = (\<lambda>c. LogFile c @ '':'' @ FormatInt (LogPos c)),
      DisplayString = show_key,
      Quote = (\<lambda>s. [CHR 0x22] @ s @ [CHR 0x22]),
      config = config0\<rparr>"

definition host_port :: "string \<Rightarrow> string \<Rightarrow> params" where
  "host_port host port = [''host'' \<mapsto> host, ''port'' \<mapsto> port]"

definition request0 :: request where
  "request0 = \<lparr>query = [], Header = JNull\<rparr>"

definition instance0 :: "string \<Rightarrow> int \<Rightarrow> Instance" where
  "instance0 host port =
     \<lparr>Key = \<lparr>Hostname = host, Port = port\<rparr>, ServerId = 0, Version = 0, UpstreamKey = None,
      ClusterName = [], DataCenter = [], Rule = Neutral, Replication = GtidCapable,
      ExecBinlogCoordinates = \<lparr>LogFile = [], LogPos = 0, Type = BinaryLog\<rparr>,
      RelaylogCoordinates = \<lparr>LogFile = [], LogPos = 0, Type = RelayLog\<rparr>,
      IsLastCheckValid = True\<rparr>"

text \<open>A world whose regroup operations promote \<open>db2\<close> and return the two buckets given.\<close>

definition regroup_answer :: "Instance list \<Rightarrow> Instance list \<Rightarrow> ret" where
  "regroup_answer lost cannotReplicate =
     ret0\<lparr>r_instance := Some (instance0 ''db2'' 3306),
          r_slices := [lost, [], [], cannotReplicate]\<rparr>"

definition regroup_gtid_answer :: "Instance list \<Rightarrow> Instance list \<Rightarrow> ret" where
  "regroup_gtid_answer lost cannotReplicate =
     ret0\<lparr>r_instance := Some (instance0 ''db2'' 3306),
          r_slices := [lost, [], cannotReplicate]\<rparr>"

definition db1 :: InstanceKey where
  "db1 = \<lparr>Hostname = ''db1'', Port = 3306\<rparr>"

definition regroup_world :: "Instance list \<Rightarrow> Instance list \<Rightarrow> world" where
  "regroup_world lost cannotReplicate =
     example_world True
       [Call ''inst.RegroupSlaves'' [AKey db1, ABool False, ANil, ANil]
          \<mapsto> regroup_answer lost cannotReplicate,
        Call ''inst.RegroupSlavesPseudoGTID'' [AKey db1, ABool False, ANil, ANil]
          \<mapsto> regroup_answer lost cannotReplicate,
        Call ''inst.RegroupSlavesGTID'' [AKey db1, ABool False, ANil]
          \<mapsto> regroup_gtid_answer lost cannotReplicate]"

section \<open>Properties of the handlers\<close>

lemmas reply_defs = envelope_def unauthorized_def reply_error_def

lemmas example_defs = example_world_def example_core_def parse_key_def Atoi_def ParseInt_def
  ret0_def config0_def host_port_def pget_def show_key_def FormatInt_def digits_of.simps
  instance0_def request0_def getInstanceKey_def slice_def Query_Get_def db1_def

section \<open>The claims\<close>

subsection \<open>C1: what the regroup endpoints report\<close>

text \<open>
  C1, as stated, says that the regroup endpoints surface the \<open>lost\<close> and the
  \<open>cannotReplicate\<close> bucket separately. Each of the three handlers appends
  \<open>cannotReplicateSlaves\<close> to \<open>lostSlaves\<close> and reports one length: a replica that is lost
  and a replica that cannot replicate give the same response, and the response says
  \<open>lost: 1\<close> when the engine returned no lost replica.
\<close>

theorem C1_regroup_merged_counterexample:
  "snd (RegroupSlaves (regroup_world [instance0 ''db3'' 3306] []) (host_port ''db1'' ''3306'')
          request0 ''alice'')
     = envelope OK ''promoted slave: db2:3306, lost: 1, trivial: 0, pseudo-gtid: 0''
         (JKey \<lparr>Hostname = ''db2'', Port = 3306\<rparr>)
   \<and> snd (RegroupSlaves (regroup_world [] [instance0 ''db3'' 3306]) (host_port ''db1'' ''3306'')
          request0 ''alice'')
     = envelope OK ''promoted slave: db2:3306, lost: 1, trivial: 0, pseudo-gtid: 0''
         (JKey \<lparr>Hostname = ''db2'', Port = 3306\<rparr>)
   \<and> slice (core (regroup_world [] [instance0 ''db3'' 3306])
               (Call ''inst.RegroupSlaves'' [AKey db1, ABool False, ANil, ANil])) 0 = []
   \<and> snd (RegroupSlavesGTID (regroup_world [] [instance0 ''db3'' 3306])
          (host_port ''db1'' ''3306'') request0 ''alice'')
     = envelope OK ''promoted slave: db2:3306, lost: 1, moved: 0''
         (JKey \<lparr>Hostname = ''db2'', Port = 3306\<rparr>)"
  by (simp add: RegroupSlaves_def RegroupSlavesGTID_def regroup_world_def regroup_answer_def
      regroup_gtid_answer_def example_defs Let_def)

text \<open>
  C1 as amended: when a regroup endpoint succeeds, its message reports as \<open>lost\<close> the
  number of lost replicas plus the number of replicas that cannot replicate, next to the
  counts of the other buckets, and its details are the key of the promoted replica. The
  \<open>cannotReplicate\<close> bucket is not reported on its own.
\<close>

theorem C1_regroup:
  assumes "isAuthorizedForAction w req user"
    and "getInstanceKey w (pget params ''host'') (pget params ''port'') = (c1, Some (instanceKey, None))"
    and "r_err r = None" and "r_instance r = Some promoted"
  shows "(core w (Call ''inst.RegroupSlaves'' [AKey instanceKey, ABool False, ANil, ANil]) = r \<longrightarrow>
           snd (RegroupSlaves w params req user) =
             envelope OK (''promoted slave: '' @ DisplayString w (Key promoted) @
                          '', lost: '' @ FormatInt (int (length (slice r 0) + length (slice r 3))) @
                          '', trivial: '' @ FormatInt (int (length (slice r 1))) @
                          '', pseudo-gtid: '' @ FormatInt (int (length (slice r 2))))
               (JKey (Key promoted)))
       \<and> (core w (Call ''inst.RegroupSlavesPseudoGTID'' [AKey instanceKey, ABool False, ANil, ANil]) = r \<longrightarrow>
           snd (RegroupSlavesPseudoGTID w params req user) =
             envelope OK (''promoted slave: '' @ DisplayString w (Key promoted) @
                          '', lost: '' @ FormatInt (int (length (slice r 0) + length (slice r 3))) @
                          '', trivial: '' @ FormatInt (int (length (slice r 1))) @
                          '', pseudo-gtid: '' @ FormatInt (int (length (slice r 2))))
               (JKey (Key promoted)))
       \<and> (core w (Call ''inst.RegroupSlavesGTID'' [AKey instanceKey, ABool False, ANil]) = r \<longrightarrow>
           snd (RegroupSlavesGTID w params req user) =
             envelope OK (''promoted slave: '' @ DisplayString w (Key promoted) @
                          '', lost: '' @ FormatInt (int (length (slice r 0) + length (slice r 2))) @
                          '', moved: '' @ FormatInt (int (length (slice r 1))))
               (JKey (Key promoted)))"
  using assms by (simp add: RegroupSlaves_def RegroupSlavesPseudoGTID_def RegroupSlavesGTID_def Let_def)

theorem C1_regroup_witness:
  "snd (RegroupSlaves (regroup_world [instance0 ''db3'' 3306] [instance0 ''db4'' 3306])
          (host_port ''db1'' ''3306'') request0 ''alice'')
     = envelope OK ''promoted slave: db2:3306, lost: 2, trivial: 0, pseudo-gtid: 0''
         (JKey \<lparr>Hostname = ''db2'', Port = 3306\<rparr>)
   \<and> snd (RegroupSlavesPseudoGTID (regroup_world [instance0 ''db3'' 3306] [instance0 ''db4'' 3306])
          (host_port ''db1'' ''3306'') request0 ''alice'')
     = envelope OK ''promoted slave: db2:3306, lost: 2, trivial: 0, pseudo-gtid: 0''
         (JKey \<lparr>Hostname = ''db2'', Port = 3306\<rparr>)
   \<and> snd (RegroupSlavesGTID (regroup_world [instance0 ''db3'' 3306] [instance0 ''db4'' 3306])
          (host_port ''db1'' ''3306'') request0 ''alice'')
     = envelope OK ''promoted slave: db2:3306, lost: 2, moved: 0''
         (JKey \<lparr>Hostname = ''db2'', Port = 3306\<rparr>)"
  using C1_regroup [of "regroup_world [instance0 ''db3'' 3306] [instance0 ''db4'' 3306]"
                       request0 "''alice''" "host_port ''db1'' ''3306''"
                       "Call ''inst.NewInstanceKeyFromStrings'' [AStr ''db1'', AStr ''3306'']" db1
                       "regroup_answer [instance0 ''db3'' 3306] [instance0 ''db4'' 3306]"
                       "instance0 ''db2'' 3306"]
        C1_regroup [of "regroup_world [instance0 ''db3'' 3306] [instance0 ''db4'' 3306]"
                       request0 "''alice''" "host_port ''db1'' ''3306''"
                       "Call ''inst.NewInstanceKeyFromStrings'' [AStr ''db1'', AStr ''3306'']" db1
                       "regroup_gtid_answer [instance0 ''db3'' 3306] [instance0 ''db4'' 3306]"
                       "instance0 ''db2'' 3306"]
  by (simp add: regroup_world_def regroup_answer_def regroup_gtid_answer_def example_defs)

subsection \<open>C8: Forget and the key it does not check\<close>

text \<open>
  C8, as stated, says that \<open>Forget\<close> replies OK for every request when the key parser
  never returns nil. A request that does not pass the authorization gate is answered with
  the Unauthorized envelope, also in a world whose parser always returns a key.
\<close>

theorem C8_forget_unauthorized_counterexample:
  "Forget (example_world False Map.empty) (host_port ''db1'' ''3306'') request0 ''alice''
     = ([], envelope ERROR ''Unauthorized'' JNull)
   \<and> r_key (example_core Map.empty (Call ''inst.NewRawInstanceKey'' [AStr ''db1:3306'']))
     = Some \<lparr>Hostname = ''db1'', Port = 3306\<rparr>"
  by (simp add: Forget_def example_world_def unauthorized_def example_core_def parse_key_def
      Atoi_def ParseInt_def ret0_def)

text \<open>
  C8 as amended: behind the authorization gate, \<open>Forget\<close> never looks at the error of
  \<open>inst.NewRawInstanceKey\<close>. When the parser returns a key the handler calls
  \<open>inst.ForgetInstance\<close> with it and replies OK, whatever the error was; when the parser
  returns nil the handler passes nil on and panics on the dereference. A request that
  does not pass the gate gets the Unauthorized envelope and nothing is called.
\<close>

theorem C8_forget:
  fixes w :: world and params :: params
  defines "c1 \<equiv> Call ''inst.NewRawInstanceKey'' [AStr (pget params ''host'' @ '':'' @ pget params ''port'')]"
  shows "(isAuthorizedForAction w req user \<longrightarrow> r_key (core w c1) = Some k \<longrightarrow>
            Forget w params req user =
              ([c1, Call ''inst.ForgetInstance'' [AKeyPtr (Some k)]],
               envelope OK (''Instance forgotten: '' @ fmt_key w k) JNull))
       \<and> (isAuthorizedForAction w req user \<longrightarrow> r_key (core w c1) = None \<longrightarrow>
            Forget w params req user =
              ([c1, Call ''inst.ForgetInstance'' [AKeyPtr None]], Panicked))
       \<and> (\<not> isAuthorizedForAction w req user \<longrightarrow>
            Forget w params req user = ([], unauthorized))"
  by (simp add: Forget_def c1_def Let_def)

theorem C8_forget_witness:
  "Forget (example_world True Map.empty) (host_port ''db1'' ''x'') request0 ''alice''
     = ([Call ''inst.NewRawInstanceKey'' [AStr ''db1:x''],
         Call ''inst.ForgetInstance'' [AKeyPtr (Some \<lparr>Hostname = ''db1'', Port = 0\<rparr>)]],
        envelope OK ''Instance forgotten: db1:0'' JNull)
   \<and> r_err (example_core Map.empty (Call ''inst.NewRawInstanceKey'' [AStr ''db1:x'']))
     = Some (ErrorString ''Invalid port: x'')
   \<and> Forget (example_world True [Call ''inst.NewRawInstanceKey'' [AStr ''db1:x''] \<mapsto> ret0])
        (host_port ''db1'' ''x'') request0 ''alice''
     = ([Call ''inst.NewRawInstanceKey'' [AStr ''db1:x''],
         Call ''inst.ForgetInstance'' [AKeyPtr None]], Panicked)
   \<and> Forget (example_world False Map.empty) (host_port ''db1'' ''x'') request0 ''alice''
     = ([], unauthorized)"
  using C8_forget [of "example_world True Map.empty" request0 "''alice''" "host_port ''db1'' ''x''"
                      "\<lparr>Hostname = ''db1'', Port = 0\<rparr>"]
        C8_forget [of "example_world True [Call ''inst.NewRawInstanceKey'' [AStr ''db1:x''] \<mapsto> ret0]"
                      request0 "''alice''" "host_port ''db1'' ''x''"]
        C8_forget [of "example_world False Map.empty" request0 "''alice''" "host_port ''db1'' ''x''"]
  by (simp add: example_world_def example_core_def parse_key_def Atoi_def ParseInt_def ret0_def
      host_port_def pget_def show_key_def FormatInt_def digits_of.simps)

end
